theory Spec2Isabelle
  imports Complex_Main "HOL-Library.Multiset" "HOL-Library.AList"
begin

text \<open>
  The data module \<open>DataService\<close> of the dashboard (\<open>src/data.js\<close>): the CSV tokenizer,
  the coercions of numbers, percentages and dates, the parsers of the budget, ledger and
  capital sheets, the expense aggregator and the cache in front of the network. The
  first part embeds the code, function by function and under its own names; the second
  states and proves the properties.
\<close>

section \<open>JavaScript strings\<close>

text \<open>
  A JavaScript string is a sequence of UTF-16 code units. A code unit is modelled as a
  natural number and a string as a list of them; \<open>js\<close> turns an Isabelle literal into
  the string of its character codes, so \<open>js ''a,b''\<close> is \<open>[97, 44, 98]\<close>.
\<close>

type_synonym jschar = nat
type_synonym jsstring = "jschar list"

definition js :: "string \<Rightarrow> jsstring" where
  "js s = map of_char s"

definition dquote :: jschar where "dquote = 34"
definition comma :: jschar where "comma = 44"
definition LF :: jschar where "LF = 10"
definition CR :: jschar where "CR = 13"

text \<open>
  The characters that \<open>String.prototype.trim\<close> removes and that the regular
  expression class \<open>\s\<close> matches: WhiteSpace and LineTerminator of ECMAScript
  (TAB, LF, VT, FF, CR, SP, NBSP, U+1680, U+2000 to U+200A, U+2028, U+2029, U+202F,
  U+205F, U+3000, U+FEFF).
\<close>

definition is_ws :: "jschar \<Rightarrow> bool" where
  "is_ws c \<longleftrightarrow>
     c = 9 \<or> c = 10 \<or> c = 11 \<or> c = 12 \<or> c = 13 \<or> c = 32 \<or> c = 160 \<or> c = 5760 \<or>
     (8192 \<le> c \<and> c \<le> 8202) \<or> c = 8232 \<or> c = 8233 \<or> c = 8239 \<or> c = 8287 \<or>
     c = 12288 \<or> c = 65279"

definition trim :: "jsstring \<Rightarrow> jsstring" where
  "trim s = rev (dropWhile is_ws (rev (dropWhile is_ws s)))"

section \<open>The tokenizer \<open>parseCSV\<close>\<close>

text \<open>
  The \<open>for\<close> loop of \<open>parseCSV\<close> over the index \<open>i\<close>: the first argument is the text
  from position \<open>i\<close> on, \<open>nextChar\<close> is \<open>csvText[i + 1]\<close> (\<open>None\<close> for
  \<open>undefined\<close> past the end), and the extra \<open>i++\<close> of the source drops one more
  character. The loop returns the three variables the code reads after it.
\<close>

fun csv_loop ::
  "jsstring \<Rightarrow> jsstring list list \<Rightarrow> jsstring list \<Rightarrow> jsstring \<Rightarrow> bool
     \<Rightarrow> jsstring list list \<times> jsstring list \<times> jsstring" where
  "csv_loop [] rows currentRow currentField inQuotes = (rows, currentRow, currentField)"
| "csv_loop (c # cs) rows currentRow currentField inQuotes =
     (let nextChar = (case cs of [] \<Rightarrow> None | n # _ \<Rightarrow> Some n) in
      if inQuotes then
        (if c = dquote then
           (if nextChar = Some dquote
            then csv_loop (tl cs) rows currentRow (currentField @ [dquote]) True
            else csv_loop cs rows currentRow currentField False)
         else csv_loop cs rows currentRow (currentField @ [c]) True)
      else
        (if c = dquote then csv_loop cs rows currentRow currentField True
         else if c = comma then csv_loop cs rows (currentRow @ [trim currentField]) [] False
         else if c = LF \<or> (c = CR \<and> nextChar = Some LF) then
           (let pushed = currentRow @ [trim currentField];
                rows' = (if length pushed > 0 then rows @ [pushed] else rows)
            in csv_loop (if c = CR then tl cs else cs) rows' [] [] False)
         else csv_loop cs rows currentRow (currentField @ [c]) False))"

definition parseCSV :: "jsstring \<Rightarrow> jsstring list list" where
  "parseCSV csvText =
     (case csv_loop csvText [] [] [] False of
        (rows, currentRow, currentField) \<Rightarrow>
          if currentField \<noteq> [] \<or> length currentRow > 0
          then rows @ [currentRow @ [trim currentField]]
          else rows)"

section \<open>Numbers\<close>

text \<open>
  A JavaScript number is modelled by its exact value: \<open>Fin q\<close> is the number whose
  value is the rational \<open>q\<close>, and \<open>NaN\<close>, \<open>PosInf\<close>, \<open>NegInf\<close> are the three special
  values. The rounding of IEEE 754 doubles, the overflow of a huge literal to Infinity
  and the sign of zero are outside the model.
\<close>

datatype jsnum = NaN | Fin rat | PosInf | NegInf

fun js_add :: "jsnum \<Rightarrow> jsnum \<Rightarrow> jsnum" where
  "js_add NaN _ = NaN"
| "js_add _ NaN = NaN"
| "js_add (Fin a) (Fin b) = Fin (a + b)"
| "js_add PosInf NegInf = NaN"
| "js_add NegInf PosInf = NaN"
| "js_add PosInf _ = PosInf"
| "js_add _ PosInf = PosInf"
| "js_add NegInf _ = NegInf"
| "js_add _ NegInf = NegInf"

text \<open>Truthiness of a number: \<open>!x\<close> holds for 0 and NaN only.\<close>

definition num_truthy :: "jsnum \<Rightarrow> bool" where
  "num_truthy x \<longleftrightarrow> x \<noteq> NaN \<and> x \<noteq> Fin 0"

definition is_digit :: "jschar \<Rightarrow> bool" where
  "is_digit c \<longleftrightarrow> 48 \<le> c \<and> c \<le> 57"

definition digits_val :: "jsstring \<Rightarrow> nat" where
  "digits_val ds = foldl (\<lambda>a c. 10 * a + (c - 48)) 0 ds"

definition starts_with :: "jsstring \<Rightarrow> jsstring \<Rightarrow> bool" where
  "starts_with s p \<longleftrightarrow> take (length p) s = p"

text \<open>
  The optional exponent part of a decimal literal, \<open>e\<close> or \<open>E\<close>, an optional sign and at
  least one digit: the factor it contributes, 1 when the text does not begin with one.
\<close>

definition exponent_factor :: "jsstring \<Rightarrow> rat" where
  "exponent_factor r =
     (case r of
        [] \<Rightarrow> 1
      | e # r1 \<Rightarrow>
          if e = 101 \<or> e = 69 then
            (let negative = (r1 \<noteq> [] \<and> hd r1 = 45);
                 signed = (r1 \<noteq> [] \<and> (hd r1 = 45 \<or> hd r1 = 43));
                 ds = takeWhile is_digit (if signed then tl r1 else r1)
             in if ds = [] then 1
                else if negative then 1 / 10 ^ digits_val ds
                else 10 ^ digits_val ds)
          else 1)"

text \<open>
  The built-in \<open>parseFloat\<close>: leading white space is skipped, then the longest prefix
  that is a decimal literal (sign, \<open>Infinity\<close> or digits with an optional fraction and
  exponent) gives the value; no such prefix gives NaN.
\<close>

definition parseFloat :: "jsstring \<Rightarrow> jsnum" where
  "parseFloat inputString =
     (let trimmed = dropWhile is_ws inputString;
          negative = (trimmed \<noteq> [] \<and> hd trimmed = 45);
          signed = (trimmed \<noteq> [] \<and> (hd trimmed = 45 \<or> hd trimmed = 43));
          body = (if signed then tl trimmed else trimmed)
      in if starts_with body (js ''Infinity'') then (if negative then NegInf else PosInf)
         else
           (let intPart = takeWhile is_digit body;
                r1 = dropWhile is_digit body;
                hasDot = (r1 \<noteq> [] \<and> hd r1 = 46);
                fracPart = (if hasDot then takeWhile is_digit (tl r1) else []);
                r2 = (if hasDot then dropWhile is_digit (tl r1) else r1);
                magnitude = (of_nat (digits_val intPart)
                             + of_nat (digits_val fracPart) / 10 ^ length fracPart)
                            * exponent_factor r2
            in if intPart = [] \<and> fracPart = [] then NaN
               else Fin (if negative then - magnitude else magnitude)))"

text \<open>
  The built-in \<open>parseInt(s, 10)\<close>: leading white space, an optional sign, then the
  longest run of decimal digits; \<open>None\<close> is NaN.
\<close>

definition parseInt10 :: "jsstring \<Rightarrow> int option" where
  "parseInt10 inputString =
     (let trimmed = dropWhile is_ws inputString;
          negative = (trimmed \<noteq> [] \<and> hd trimmed = 45);
          signed = (trimmed \<noteq> [] \<and> (hd trimmed = 45 \<or> hd trimmed = 43));
          ds = takeWhile is_digit (if signed then tl trimmed else trimmed)
      in if ds = [] then None
         else Some (if negative then - int (digits_val ds) else int (digits_val ds)))"

section \<open>Numeric coercion: \<open>parseNumber\<close> and \<open>parsePercent\<close>\<close>

text \<open>
  A cell that may be missing (\<open>row[k]\<close> past the end of the row is \<open>undefined\<close>) is a
  \<open>jsstring option\<close>. \<open>!str\<close> holds for \<open>undefined\<close> and for the empty string.
  The class \<open>[$\s,MXN]\<close> with the flags \<open>gi\<close> matches the dollar sign, white space, the
  comma and the letters M, X, N in either case, wherever they stand.
\<close>

definition number_noise :: "jschar \<Rightarrow> bool" where
  "number_noise c \<longleftrightarrow>
     c = 36 \<or> is_ws c \<or> c = 44 \<or> c = 77 \<or> c = 88 \<or> c = 78 \<or> c = 109 \<or> c = 120 \<or> c = 110"

definition parseNumber :: "jsstring option \<Rightarrow> jsnum" where
  "parseNumber str =
     (case str of
        None \<Rightarrow> Fin 0
      | Some s \<Rightarrow>
          if s = [] then Fin 0
          else
            (let cleaned = trim (filter (\<lambda>c. \<not> number_noise c) s) in
             if cleaned = [] \<or> cleaned = js ''-'' then Fin 0
             else (let num = parseFloat cleaned in if num = NaN then Fin 0 else num)))"

definition percent_noise :: "jschar \<Rightarrow> bool" where
  "percent_noise c \<longleftrightarrow> c = 37 \<or> is_ws c"

definition parsePercent :: "jsstring option \<Rightarrow> jsnum" where
  "parsePercent str =
     (case str of
        None \<Rightarrow> Fin 0
      | Some s \<Rightarrow>
          if s = [] then Fin 0
          else
            (let cleaned = trim (filter (\<lambda>c. \<not> percent_noise c) s);
                 num = parseFloat cleaned
             in if num = NaN then Fin 0 else num))"

section \<open>Rows, cells and run-time errors\<close>

text \<open>
  A sheet is the array of rows that \<open>parseCSV\<close> returns. Reading an array past its end
  gives \<open>undefined\<close> (\<open>None\<close>); reading a property of \<open>undefined\<close>, or calling a method on
  it, raises a TypeError. The sheet parsers are written in the error monad below, so that
  each such read of the source is a place where the model can fail.
\<close>

type_synonym row = "jsstring list"

datatype error = TypeError | HttpError nat jsstring | TransportError jsstring

definition bind :: "error + 'a \<Rightarrow> ('a \<Rightarrow> error + 'b) \<Rightarrow> error + 'b" where
  "bind m f = (case m of Inl e \<Rightarrow> Inl e | Inr x \<Rightarrow> f x)"

text \<open>\<open>row[k]\<close> for a row that exists.\<close>

definition cell :: "row \<Rightarrow> nat \<Rightarrow> jsstring option" where
  "cell r k = (if k < length r then Some (r ! k) else None)"

text \<open>\<open>rows[i]\<close>; the index may be the \<open>-1\<close> of a failed search.\<close>

definition row_at :: "row list \<Rightarrow> int \<Rightarrow> row option" where
  "row_at rows i = (if 0 \<le> i \<and> i < int (length rows) then Some (rows ! nat i) else None)"

text \<open>\<open>r[k]\<close> for \<open>r = rows[i]\<close>, which may be \<open>undefined\<close>.\<close>

definition cell_of :: "row option \<Rightarrow> nat \<Rightarrow> error + jsstring option" where
  "cell_of r k = (case r of None \<Rightarrow> Inl TypeError | Some r' \<Rightarrow> Inr (cell r' k))"

text \<open>\<open>x.trim()\<close> for a cell \<open>x\<close> that may be \<open>undefined\<close>.\<close>

definition trim_of :: "jsstring option \<Rightarrow> error + jsstring" where
  "trim_of x = (case x of None \<Rightarrow> Inl TypeError | Some s \<Rightarrow> Inr (trim s))"

text \<open>Truthiness of a cell, and \<open>x || d\<close> for a cell \<open>x\<close> and a string \<open>d\<close>.\<close>

definition cell_truthy :: "jsstring option \<Rightarrow> bool" where
  "cell_truthy x \<longleftrightarrow> x \<noteq> None \<and> x \<noteq> Some []"

definition or_else :: "jsstring option \<Rightarrow> jsstring \<Rightarrow> jsstring" where
  "or_else x d = (if cell_truthy x then the x else d)"

text \<open>
  \<open>toLowerCase\<close> on the letters of Basic Latin and Latin-1; every other code unit is
  kept, so the case mappings of the rest of Unicode are outside the model.
\<close>

definition lower_unit :: "jschar \<Rightarrow> jschar" where
  "lower_unit c =
     (if (65 \<le> c \<and> c \<le> 90) \<or> (192 \<le> c \<and> c \<le> 222 \<and> c \<noteq> 215) then c + 32 else c)"

definition toLowerCase :: "jsstring \<Rightarrow> jsstring" where
  "toLowerCase s = map lower_unit s"

section \<open>Dates: \<open>parseDate\<close>\<close>

text \<open>
  \<open>DateYMD y m d\<close> is the Date object that \<open>new Date(y, m, d)\<close> builds, local midnight of
  day \<open>d\<close> of the month with index \<open>m\<close> (0 is January) of year \<open>y\<close>; \<open>DateOfTime t\<close> is the
  Date with time value \<open>t\<close>. The generic parser behind \<open>new Date(str)\<close> depends on the
  engine: it is the parameter \<open>dateParse\<close>, \<open>None\<close> where it yields an invalid date.
\<close>

datatype jsdate = DateYMD int int int | DateOfTime int

definition slash :: jschar where "slash = 47"

text \<open>\<open>str.split(sep)\<close> for a separator of one character: always at least one part.\<close>

fun split_on :: "jschar \<Rightarrow> jsstring \<Rightarrow> jsstring list" where
  "split_on sep [] = [[]]"
| "split_on sep (c # cs) =
     (if c = sep then [] # split_on sep cs
      else (case split_on sep cs of [] \<Rightarrow> [[c]] | p # ps \<Rightarrow> (c # p) # ps))"

definition parseDate :: "(jsstring \<Rightarrow> int option) \<Rightarrow> jsstring \<Rightarrow> jsdate option" where
  "parseDate dateParse str =
     (if str = [] then None
      else
        (let parts = split_on slash str;
             standard = (case dateParse str of None \<Rightarrow> None | Some t \<Rightarrow> Some (DateOfTime t))
         in if length parts = 3 then
              (case (parseInt10 (parts ! 0), parseInt10 (parts ! 1), parseInt10 (parts ! 2)) of
                 (Some month, Some day, Some year) \<Rightarrow> Some (DateYMD year (month - 1) day)
               | _ \<Rightarrow> standard)
            else standard))"

section \<open>The expense ledger: \<open>parseExpenses\<close>\<close>

record expense =
  date :: jsstring
  dateObj :: "jsdate option"
  category :: jsstring
  subcategory :: jsstring
  amount :: jsnum

text \<open>
  The loop of \<open>parseExpenses\<close> over the rows after the header; the two \<open>continue\<close>
  statements are the two branches that keep \<open>expenses\<close> as it is.
\<close>

fun expenses_loop ::
  "(jsstring \<Rightarrow> int option) \<Rightarrow> row list \<Rightarrow> expense list \<Rightarrow> expense list" where
  "expenses_loop dateParse [] expenses = expenses"
| "expenses_loop dateParse (r # rest) expenses =
     (if length r < 5 then expenses_loop dateParse rest expenses
      else
        (let dateStr = trim (or_else (cell r 0) []);
             category = trim (or_else (cell r 1) []);
             subcategory = trim (or_else (cell r 2) []);
             amount = parseNumber (cell r 4)
         in if category = [] \<and> \<not> num_truthy amount then expenses_loop dateParse rest expenses
            else expenses_loop dateParse rest
                   (expenses @ [\<lparr>date = dateStr, dateObj = parseDate dateParse dateStr,
                                 category = category, subcategory = subcategory,
                                 amount = amount\<rparr>])))"

definition parseExpenses :: "(jsstring \<Rightarrow> int option) \<Rightarrow> row list \<Rightarrow> expense list" where
  "parseExpenses dateParse rows = expenses_loop dateParse (drop 1 rows) []"

section \<open>The budget sheet: \<open>parseBudget\<close>\<close>

record house =
  house_name :: jsstring
  sqm :: jsnum
  pricePerSqm :: jsnum
  totalCommercial :: jsnum
  netIncome :: jsnum

record cost_item =
  item_name :: jsstring
  item_amount :: jsnum

text \<open>
  The object that \<open>parseBudget\<close> returns, its nested objects flattened: \<open>hardCosts.total\<close>
  is \<open>hardCosts_total\<close> and so on. A property the code never assigns is \<open>None\<close>.
\<close>

record budget =
  houses :: "house list"
  hardCosts_total :: "jsnum option"
  hardCosts_construction :: "jsnum option"
  softCosts_items :: "cost_item list"
  softCosts_total :: "jsnum option"
  terreno_items :: "cost_item list"
  terreno_total :: "jsnum option"

text \<open>\<open>Array.prototype.findIndex\<close>: the first index whose element satisfies \<open>p\<close>, or \<open>-1\<close>.\<close>

fun findIndex :: "('a \<Rightarrow> bool) \<Rightarrow> 'a list \<Rightarrow> int" where
  "findIndex p [] = - 1"
| "findIndex p (x # xs) =
     (if p x then 0 else (let i = findIndex p xs in if i < 0 then - 1 else i + 1))"

text \<open>
  The predicate of \<open>findRow\<close>:
  \<open>r && r[1] && r[1].trim().toLowerCase().startsWith(label.toLowerCase())\<close>.
\<close>

definition label_matches :: "jsstring \<Rightarrow> row \<Rightarrow> bool" where
  "label_matches label r \<longleftrightarrow>
     cell_truthy (cell r 1) \<and>
     starts_with (toLowerCase (trim (the (cell r 1)))) (toLowerCase label)"

definition findRow :: "row list \<Rightarrow> jsstring \<Rightarrow> int" where
  "findRow rows label = findIndex (label_matches label) rows"

text \<open>
  The body of the loop over \<open>[casa1Idx, casa2Idx]\<close>: the houses it pushes for one index.
\<close>

definition house_at :: "row list \<Rightarrow> int \<Rightarrow> error + house list" where
  "house_at rows idx =
     (if idx \<ge> 0 \<and> row_at rows idx \<noteq> None then
        bind (cell_of (row_at rows idx) 1) (\<lambda>c1.
        bind (cell_of (row_at rows idx) 5) (\<lambda>c5.
        bind (cell_of (row_at rows idx) 7) (\<lambda>c7.
        bind (cell_of (row_at rows idx) 9) (\<lambda>c9.
        bind (cell_of (row_at rows idx) 10) (\<lambda>c10.
          Inr [\<lparr>house_name = trim (or_else c1 []), sqm = parseNumber c5,
                pricePerSqm = parseNumber c7, totalCommercial = parseNumber c9,
                netIncome = parseNumber c10\<rparr>])))))
      else Inr [])"

text \<open>
  \<open>if (idx >= 0) { x = this.parseNumber(rows[idx][10]); }\<close>: the value assigned to a
  total, \<open>None\<close> when the assignment is skipped. The row itself is not tested here.
\<close>

definition total_at :: "row list \<Rightarrow> int \<Rightarrow> error + jsnum option" where
  "total_at rows idx =
     (if idx \<ge> 0 then bind (cell_of (row_at rows idx) 10) (\<lambda>c10. Inr (Some (parseNumber c10)))
      else Inr None)"

text \<open>The body of the loops over \<open>softLabels\<close> and \<open>terrenoLabels\<close>, and the loops.\<close>

definition item_at :: "row list \<Rightarrow> jsstring \<Rightarrow> error + cost_item list" where
  "item_at rows label =
     (let idx = findRow rows label in
      if idx \<ge> 0 \<and> row_at rows idx \<noteq> None then
        bind (cell_of (row_at rows idx) 1) (\<lambda>c1.
        bind (cell_of (row_at rows idx) 10) (\<lambda>c10.
          Inr [\<lparr>item_name = trim (or_else c1 label), item_amount = parseNumber c10\<rparr>]))
      else Inr [])"

fun items_loop :: "row list \<Rightarrow> jsstring list \<Rightarrow> cost_item list \<Rightarrow> error + cost_item list" where
  "items_loop rows [] items = Inr items"
| "items_loop rows (label # labels) items =
     bind (item_at rows label) (\<lambda>pushed. items_loop rows labels (items @ pushed))"

definition softLabels :: "jsstring list" where
  "softLabels =
     [js ''Fee Administracion'', js ''Arquitectura'',
      js ''Tr'' @ [225] @ js ''mites / Permisos'', js ''Legal / Fiscal'',
      js ''Ingenier'' @ [237] @ js ''as / Estudios'', js ''IVA Soft Cost'']"

definition terrenoLabels :: "jsstring list" where
  "terrenoLabels = [js ''Lote 1'', js ''Lote 2'', js ''ISAI'']"

definition parseBudget :: "row list \<Rightarrow> error + budget" where
  "parseBudget rows =
     bind (house_at rows (findRow rows (js ''Casa 1''))) (\<lambda>h1.
     bind (house_at rows (findRow rows (js ''Casa 2''))) (\<lambda>h2.
     bind (total_at rows (findRow rows (js ''Total de Hard Cost''))) (\<lambda>hardTotal.
     bind (total_at rows (findRow rows (js ''Construcci'' @ [243] @ js ''n''))) (\<lambda>construction.
     bind (items_loop rows softLabels []) (\<lambda>softItems.
     bind (total_at rows (findRow rows (js ''Total de Soft Cost''))) (\<lambda>softTotal.
     bind (items_loop rows terrenoLabels []) (\<lambda>terrenoItems.
     bind (total_at rows (findRow rows (js ''Valor de Terreno''))) (\<lambda>terrenoTotal.
       Inr \<lparr>houses = h1 @ h2,
            hardCosts_total = hardTotal, hardCosts_construction = construction,
            softCosts_items = softItems, softCosts_total = softTotal,
            terreno_items = terrenoItems, terreno_total = terrenoTotal\<rparr>))))))))"

section \<open>The capital sheet: \<open>parseCapital\<close>\<close>

record use_of_capital =
  use_amount :: jsnum
  use_pct :: jsnum

record investor =
  investor_name :: jsstring
  investor_amount :: jsnum

text \<open>
  An indicator is the pair of properties that one \<open>if (rows[k])\<close> block assigns: the value
  (\<open>totalIncome\<close>, say) and its label (\<open>totalIncomeLabel\<close>).
\<close>

record indicator =
  ind_value :: jsnum
  ind_label :: jsstring

record capital =
  uses_hardCosts :: "use_of_capital option"
  uses_softCosts :: "use_of_capital option"
  uses_terreno :: "use_of_capital option"
  investors :: "investor list"
  totalIncome :: "indicator option"
  projectCost :: "indicator option"
  profit :: "indicator option"
  margin :: "indicator option"
  capitalContributed :: "indicator option"
  totalReturn :: "indicator option"
  roi :: "indicator option"
  capitalMultiple :: "indicator option"

text \<open>
  \<open>if (rows[k]) { data.uses.x = { amount: parseNumber(rows[k][2]), pct: parsePercent(rows[k][3]) }; }\<close>
\<close>

definition use_at :: "row list \<Rightarrow> int \<Rightarrow> error + use_of_capital option" where
  "use_at rows k =
     (if row_at rows k \<noteq> None then
        bind (cell_of (row_at rows k) 2) (\<lambda>c2.
        bind (cell_of (row_at rows k) 3) (\<lambda>c3.
          Inr (Some \<lparr>use_amount = parseNumber c2, use_pct = parsePercent c3\<rparr>)))
      else Inr None)"

text \<open>
  \<open>if (rows[k]) { x = parse(rows[k][2]); xLabel = (rows[k][0] || dflt).trim(); }\<close>
\<close>

definition indicator_at ::
  "row list \<Rightarrow> int \<Rightarrow> (jsstring option \<Rightarrow> jsnum) \<Rightarrow> jsstring \<Rightarrow> error + indicator option" where
  "indicator_at rows k parse dflt =
     (if row_at rows k \<noteq> None then
        bind (cell_of (row_at rows k) 2) (\<lambda>c2.
        bind (cell_of (row_at rows k) 0) (\<lambda>c0.
          Inr (Some \<lparr>ind_value = parse c2, ind_label = trim (or_else c0 dflt)\<rparr>)))
      else Inr None)"

text \<open>
  The body of the investor loop for the index \<open>i\<close>: \<open>Inr None\<close> is the \<open>break\<close>,
  \<open>Inr (Some v)\<close> the investor pushed. The three tests of the \<open>if\<close> are evaluated from
  left to right, as \<open>||\<close> does.
\<close>

definition investor_at :: "row list \<Rightarrow> nat \<Rightarrow> error + investor option" where
  "investor_at rows i =
     (let r = row_at rows (int i) in
      if r = None then Inr None
      else
        bind (cell_of r 0) (\<lambda>c0.
          if \<not> cell_truthy c0 then Inr None
          else
            bind (trim_of c0) (\<lambda>t.
              if t = [] then Inr None
              else
                bind (trim_of c0) (\<lambda>name.
                bind (cell_of r 2) (\<lambda>c2.
                  Inr (Some \<lparr>investor_name = name, investor_amount = parseNumber c2\<rparr>))))))"

function investors_loop :: "row list \<Rightarrow> nat \<Rightarrow> investor list \<Rightarrow> error + investor list" where
  "investors_loop rows i acc =
     (if i < 11 \<and> i < length rows then
        (case investor_at rows i of
           Inl e \<Rightarrow> Inl e
         | Inr None \<Rightarrow> Inr acc
         | Inr (Some v) \<Rightarrow> investors_loop rows (i + 1) (acc @ [v]))
      else Inr acc)"
  by pat_completeness auto
termination
  by (relation "measure (\<lambda>(rows, i, acc). 11 - i)") auto

declare investors_loop.simps [simp del]

definition parseCapital :: "row list \<Rightarrow> error + capital" where
  "parseCapital rows =
     bind (use_at rows 1) (\<lambda>u1.
     bind (use_at rows 2) (\<lambda>u2.
     bind (use_at rows 3) (\<lambda>u3.
     bind (investors_loop rows 6 []) (\<lambda>invs.
     bind (indicator_at rows 12 parseNumber (js ''Ingresos Totales'')) (\<lambda>i12.
     bind (indicator_at rows 13 parseNumber (js ''Costo del Proyecto'')) (\<lambda>i13.
     bind (indicator_at rows 14 parseNumber (js ''Utilidad'')) (\<lambda>i14.
     bind (indicator_at rows 15 parsePercent (js ''Margen de Utilidad'')) (\<lambda>i15.
     bind (indicator_at rows 18 parseNumber (js ''Capital Aportado'')) (\<lambda>i18.
     bind (indicator_at rows 19 parseNumber (js ''Retorno Total'')) (\<lambda>i19.
     bind (indicator_at rows 20 parsePercent (js ''ROI'')) (\<lambda>i20.
     bind (indicator_at rows 21 parseNumber (js ''M'' @ [250] @ js ''ltiplo de Capital'')) (\<lambda>i21.
       Inr \<lparr>uses_hardCosts = u1, uses_softCosts = u2, uses_terreno = u3,
            investors = invs,
            totalIncome = i12, projectCost = i13, profit = i14, margin = i15,
            capitalContributed = i18, totalReturn = i19, roi = i20,
            capitalMultiple = i21\<rparr>))))))))))))"

section \<open>The aggregator: \<open>normalizeCategory\<close> and \<open>calculateExpenseSummary\<close>\<close>

definition normalizeCategory :: "jsstring \<Rightarrow> jsstring" where
  "normalizeCategory cat =
     (if cat = [] then []
      else
        (let lower = toLowerCase (trim cat) in
         if starts_with lower (js ''hard'') then js ''Hard Cost''
         else if starts_with lower (js ''soft'') then js ''Soft Cost''
         else if starts_with lower (js ''terreno'') then js ''Terreno''
         else trim cat))"

text \<open>
  \<open>byCategory\<close> and \<open>bySubcategory\<close> are object literals \<open>{}\<close> used as dictionaries. Such
  an object has the properties the code has assigned (its own properties, an association
  list here) and, behind them, the members of \<open>Object.prototype\<close>: reading
  \<open>obj["constructor"]\<close> from an empty object gives the function \<open>Object\<close>, not \<open>undefined\<close>.

  A value read from such an object is \<open>undefined\<close>, a number, an inherited member
  (\<open>Builtin\<close>), or a string made by \<open>+=\<close> from an inherited member (\<open>Text\<close>; its characters
  depend on the engine and are not tracked, it is never empty).
\<close>

datatype jsval = Undefined | Number jsnum | Text | Builtin

type_synonym obj = "(jsstring \<times> jsval) list"

definition object_prototype_keys :: "jsstring list" where
  "object_prototype_keys =
     [js ''constructor'', js ''hasOwnProperty'', js ''isPrototypeOf'',
      js ''propertyIsEnumerable'', js ''toLocaleString'', js ''toString'', js ''valueOf'',
      js ''__proto__'', js ''__defineGetter__'', js ''__defineSetter__'',
      js ''__lookupGetter__'', js ''__lookupSetter__'']"

definition obj_get :: "obj \<Rightarrow> jsstring \<Rightarrow> jsval" where
  "obj_get ob k =
     (case map_of ob k of
        Some v \<Rightarrow> v
      | None \<Rightarrow> if k \<in> set object_prototype_keys then Builtin else Undefined)"

text \<open>
  \<open>obj[k] = v\<close> for a number or a string \<open>v\<close>: it creates or overwrites the own property,
  except for the key \<open>__proto__\<close>, whose setter ignores a value that is not an object.
\<close>

definition obj_set :: "obj \<Rightarrow> jsstring \<Rightarrow> jsval \<Rightarrow> obj" where
  "obj_set ob k v = (if k = js ''__proto__'' then ob else AList.update k v ob)"

fun truthy :: "jsval \<Rightarrow> bool" where
  "truthy Undefined = False"
| "truthy (Number x) = num_truthy x"
| "truthy Text = True"
| "truthy Builtin = True"

text \<open>
  \<open>x + amount\<close> for a number \<open>amount\<close>: numeric addition when \<open>x\<close> is a number, NaN for
  \<open>undefined\<close>, string concatenation when \<open>x\<close> is a string, a function or an object.
\<close>

fun js_plus :: "jsval \<Rightarrow> jsnum \<Rightarrow> jsval" where
  "js_plus (Number x) amt = Number (js_add x amt)"
| "js_plus Undefined amt = Number NaN"
| "js_plus Text amt = Text"
| "js_plus Builtin amt = Text"

text \<open>\<open>if (!obj[k]) { obj[k] = 0; }  obj[k] += amt;\<close>\<close>

definition accumulate :: "obj \<Rightarrow> jsstring \<Rightarrow> jsnum \<Rightarrow> obj" where
  "accumulate ob k amt =
     (let ob1 = (if \<not> truthy (obj_get ob k) then obj_set ob k (Number (Fin 0)) else ob)
      in obj_set ob1 k (js_plus (obj_get ob1 k) amt))"

record summary =
  total :: jsnum
  byCategory :: obj
  bySubcategory :: obj

definition summary_step :: "summary \<Rightarrow> expense \<Rightarrow> summary" where
  "summary_step sm ex =
     (let catKey = normalizeCategory (category ex);
          subKey = catKey @ js ''|'' @ subcategory ex
      in \<lparr>total = js_add (total sm) (amount ex),
          byCategory = accumulate (byCategory sm) catKey (amount ex),
          bySubcategory = accumulate (bySubcategory sm) subKey (amount ex)\<rparr>)"

definition calculateExpenseSummary :: "expense list \<Rightarrow> summary" where
  "calculateExpenseSummary expenses =
     foldl summary_step \<lparr>total = Fin 0, byCategory = [], bySubcategory = []\<rparr> expenses"

section \<open>Fetching and the cache: \<open>fetchCSV\<close>, \<open>fetchAllData\<close>, \<open>clearCache\<close>\<close>

text \<open>
  What the network answers to one request: the request is rejected (a transport error
  with its message), or a response arrives with a status, a status text and a body, the
  body being its text (\<open>Inr\<close>) or the message with which reading it fails (\<open>Inl\<close>).
\<close>

datatype response = Rejected jsstring | Reply nat jsstring "jsstring + jsstring"

definition fetchCSV :: "(jsstring \<Rightarrow> response) \<Rightarrow> jsstring \<Rightarrow> error + row list" where
  "fetchCSV net url =
     (case net url of
        Rejected msg \<Rightarrow> Inl (TransportError msg)
      | Reply status statusText body \<Rightarrow>
          if \<not> (200 \<le> status \<and> status \<le> 299) then Inl (HttpError status statusText)
          else (case body of Inl msg \<Rightarrow> Inl (TransportError msg)
                           | Inr text \<Rightarrow> Inr (parseCSV text)))"

text \<open>The decimal digits of a number, and the message of an error.\<close>

fun decimal :: "nat \<Rightarrow> jsstring" where
  "decimal n = (if n < 10 then [48 + n] else decimal (n div 10) @ [48 + n mod 10])"

definition message :: "error \<Rightarrow> jsstring" where
  "message e =
     (case e of
        HttpError status statusText \<Rightarrow> js ''HTTP '' @ decimal status @ js '': '' @ statusText
      | TransportError msg \<Rightarrow> msg
      | TypeError \<Rightarrow> js ''TypeError'')"

record project =
  key :: jsstring
  sheets_budget :: jsstring
  sheets_desglose :: jsstring
  sheets_capital :: jsstring

record snapshot =
  snap_budget :: budget
  snap_expenses :: "expense list"
  snap_capital :: capital
  fetchedAt :: int

text \<open>
  The mutable fields of \<open>DataService\<close>. The cache is modelled by its own properties: a
  project key is a key of the configuration table \<open>PROJECTS\<close>. Times are milliseconds
  as \<open>Date.now()\<close> gives them; a timestamp of 0 is falsy, as is \<open>null\<close> (\<open>None\<close>).
\<close>

record service =
  cache :: "(jsstring \<times> snapshot) list"
  cacheTimestamp :: "int option"

definition CACHE_TTL :: int where
  "CACHE_TTL = 5 * 60 * 1000"

definition cache_fresh :: "service \<Rightarrow> int \<Rightarrow> project \<Rightarrow> bool" where
  "cache_fresh s now p \<longleftrightarrow>
     map_of (cache s) (key p) \<noteq> None \<and>
     cacheTimestamp s \<noteq> None \<and> cacheTimestamp s \<noteq> Some 0 \<and>
     now - the (cacheTimestamp s) < CACHE_TTL"

text \<open>
  \<open>Promise.all\<close> of three promises: the three results when all fulfil, otherwise the
  error of a rejected one. When several reject, the engine reports the one that settles
  first; the model reports the first in the order of the array.
\<close>

definition promise_all ::
  "error + 'a \<Rightarrow> error + 'b \<Rightarrow> error + 'c \<Rightarrow> error + ('a \<times> 'b \<times> 'c)" where
  "promise_all a b c = bind a (\<lambda>x. bind b (\<lambda>y. bind c (\<lambda>z. Inr (x, y, z))))"

text \<open>
  \<open>fetchAllData\<close>: \<open>net\<close> is what the network answers during this call, \<open>now\<close> the value of
  \<open>Date.now()\<close> on entry and \<open>later\<close> the time of \<open>new Date()\<close> after the three fetches.
  The result is the value the promise settles with (\<open>Inl\<close> a rejection), the service
  after the call, and the requests sent, in order.
\<close>

definition fetchAllData ::
  "(jsstring \<Rightarrow> response) \<Rightarrow> (jsstring \<Rightarrow> int option) \<Rightarrow> int \<Rightarrow> int \<Rightarrow> service \<Rightarrow> project
     \<Rightarrow> (error + snapshot) \<times> service \<times> jsstring list" where
  "fetchAllData net dateParse now later s p =
     (if cache_fresh s now p then (Inr (the (map_of (cache s) (key p))), s, [])
      else
        (let requests = [sheets_budget p, sheets_desglose p, sheets_capital p];
             fetched = promise_all (fetchCSV net (sheets_budget p))
                                   (fetchCSV net (sheets_desglose p))
                                   (fetchCSV net (sheets_capital p));
             parsed = bind fetched (\<lambda>(budget, desglose, capital).
                        bind (parseBudget budget) (\<lambda>b.
                        bind (parseCapital capital) (\<lambda>c.
                          Inr \<lparr>snap_budget = b,
                               snap_expenses = parseExpenses dateParse desglose,
                               snap_capital = c, fetchedAt = later\<rparr>)))
         in case parsed of
              Inl e \<Rightarrow> (Inl e, s, requests)
            | Inr v \<Rightarrow>
                (Inr v,
                 s\<lparr>cache := AList.update (key p) v (cache s), cacheTimestamp := Some now\<rparr>,
                 requests)))"

definition clearCache :: "service \<Rightarrow> service" where
  "clearCache s = s\<lparr>cache := [], cacheTimestamp := None\<rparr>"

section \<open>Definitions used to state the properties\<close>





text \<open>A non-empty string of decimal digits.\<close>

definition digits :: "jsstring \<Rightarrow> bool" where
  "digits s \<longleftrightarrow> s \<noteq> [] \<and> list_all is_digit s"

text \<open>
  The text of a decimal number as the specification words it: an optional minus sign,
  then digits with an optional point and fraction digits, at least one digit in all, and
  nothing else.
\<close>

definition decimal_text :: "jsstring \<Rightarrow> bool" where
  "decimal_text s \<longleftrightarrow>
     (let body = (if s \<noteq> [] \<and> hd s = 45 then tl s else s);
          ip = takeWhile is_digit body;
          rest = dropWhile is_digit body;
          fp = (if rest \<noteq> [] \<and> hd rest = 46 then tl rest else rest)
      in \<not> (ip = [] \<and> fp = []) \<and> list_all is_digit fp)"

text \<open>
  The shape \<open>M/D/YYYY\<close> as the specification words it: three parts separated by
  slashes, a month and a day of one or two digits and a year of four.
\<close>

definition mdy_shape :: "jsstring \<Rightarrow> bool" where
  "mdy_shape str \<longleftrightarrow>
     (case split_on slash str of
        [m, d, y] \<Rightarrow>
          digits m \<and> length m \<le> 2 \<and> digits d \<and> length d \<le> 2 \<and> digits y \<and> length y = 4
      | _ \<Rightarrow> False)"


text \<open>
  The rows of the ledger that become expenses, and the expense made from such a row.
\<close>

definition kept_row :: "row \<Rightarrow> bool" where
  "kept_row r \<longleftrightarrow>
     5 \<le> length r \<and> (trim (r ! 1) \<noteq> [] \<or> num_truthy (parseNumber (Some (r ! 4))))"

definition expense_of :: "(jsstring \<Rightarrow> int option) \<Rightarrow> row \<Rightarrow> expense" where
  "expense_of dateParse r =
     \<lparr>date = trim (r ! 0), dateObj = parseDate dateParse (trim (r ! 0)),
      category = trim (r ! 1), subcategory = trim (r ! 2),
      amount = parseNumber (Some (r ! 4))\<rparr>"

text \<open>
  A row of the capital sheet whose name cell (column A) is not blank, and the investor
  made from such a row.
\<close>

definition named :: "row \<Rightarrow> bool" where
  "named r \<longleftrightarrow> cell_truthy (cell r 0) \<and> trim (the (cell r 0)) \<noteq> []"

definition investor_of :: "row \<Rightarrow> investor" where
  "investor_of r = \<lparr>investor_name = trim (r ! 0), investor_amount = parseNumber (cell r 2)\<rparr>"

text \<open>
  Concrete data for the examples: an expense with a finite amount, a network that answers
  every request with an empty sheet, one that answers 404 for the ledger of project A,
  two projects, a capital sheet with six investor rows from index 6 on, and the budget
  and capital structure of an empty sheet.
\<close>

definition entry :: "jsstring \<Rightarrow> jsstring \<Rightarrow> rat \<Rightarrow> expense" where
  "entry cat sub amt =
     \<lparr>date = [], dateObj = None, category = cat, subcategory = sub, amount = Fin amt\<rparr>"

definition empty_sheets :: "jsstring \<Rightarrow> response" where
  "empty_sheets url = Reply 200 (js ''OK'') (Inr [])"

definition failing_ledger :: "jsstring \<Rightarrow> response" where
  "failing_ledger url =
     (if url = js ''a/desglose'' then Reply 404 (js ''Not Found'') (Inr [])
      else Reply 200 (js ''OK'') (Inr []))"

definition project_A :: project where
  "project_A =
     \<lparr>key = js ''A'', sheets_budget = js ''a/budget'', sheets_desglose = js ''a/desglose'',
      sheets_capital = js ''a/capital''\<rparr>"

definition project_B :: project where
  "project_B =
     \<lparr>key = js ''B'', sheets_budget = js ''b/budget'', sheets_desglose = js ''b/desglose'',
      sheets_capital = js ''b/capital''\<rparr>"

definition six_investors :: "row list" where
  "six_investors =
     [[], [], [], [], [], [],
      [js ''Ana'', [], js ''$100''], [js ''Beto'', [], js ''$200''], [js ''Caro'', [], js ''$300''],
      [js ''Dani'', [], js ''$400''], [js ''Eva'', [], js ''$500''], [js ''Fer'', [], js ''$600'']]"

definition empty_budget :: budget where
  "empty_budget =
     \<lparr>houses = [], hardCosts_total = None, hardCosts_construction = None,
      softCosts_items = [], softCosts_total = None, terreno_items = [], terreno_total = None\<rparr>"

definition empty_capital :: capital where
  "empty_capital =
     \<lparr>uses_hardCosts = None, uses_softCosts = None, uses_terreno = None, investors = [],
      totalIncome = None, projectCost = None, profit = None, margin = None,
      capitalContributed = None, totalReturn = None, roi = None, capitalMultiple = None\<rparr>"

definition service0 :: service where
  "service0 = \<lparr>cache = [], cacheTimestamp = None\<rparr>"

text \<open>
  A session: project A is fetched at time 1000000, project B four minutes later, at
  1240000; \<open>service1\<close> and \<open>service2\<close> are the service after each call.
\<close>

definition service1 :: service where
  "service1 = fst (snd (fetchAllData empty_sheets Map.empty 1000000 1000500 service0 project_A))"

definition service2 :: service where
  "service2 = fst (snd (fetchAllData empty_sheets Map.empty 1240000 1240500 service1 project_B))"

text \<open>
  Notions for the totals of the aggregator: the value of a finite number, the sum of the
  amounts of a list of expenses, the keys under which an expense is counted, the names
  that every object inherits, an object all of whose own values are finite numbers, and
  the sum of those values.
\<close>

fun fin_val :: "jsnum \<Rightarrow> rat" where
  "fin_val (Fin q) = q"
| "fin_val NaN = 0"
| "fin_val PosInf = 0"
| "fin_val NegInf = 0"

definition is_fin :: "jsnum \<Rightarrow> bool" where
  "is_fin x \<longleftrightarrow> x = Fin (fin_val x)"

definition amounts_sum :: "expense list \<Rightarrow> rat" where
  "amounts_sum es = sum_list (map (\<lambda>e. fin_val (amount e)) es)"

definition category_key :: "expense \<Rightarrow> jsstring" where
  "category_key e = normalizeCategory (category e)"

definition subcategory_key :: "expense \<Rightarrow> jsstring" where
  "subcategory_key e = category_key e @ js ''|'' @ subcategory e"

definition inherited :: "jsstring \<Rightarrow> bool" where
  "inherited k \<longleftrightarrow> k \<in> set object_prototype_keys"

fun number_of :: "jsval \<Rightarrow> rat" where
  "number_of (Number x) = fin_val x"
| "number_of Undefined = 0"
| "number_of Text = 0"
| "number_of Builtin = 0"

fun is_number :: "jsval \<Rightarrow> bool" where
  "is_number (Number x) = is_fin x"
| "is_number Undefined = False"
| "is_number Text = False"
| "is_number Builtin = False"

definition numeric :: "obj \<Rightarrow> bool" where
  "numeric ob \<longleftrightarrow> list_all (\<lambda>p. is_number (snd p)) ob"

definition values_sum :: "obj \<Rightarrow> rat" where
  "values_sum ob = sum_list (map (\<lambda>p. number_of (snd p)) ob)"

text \<open>The loop of the aggregator on one of its two objects alone.\<close>

definition accumulate_all :: "(expense \<Rightarrow> jsstring) \<Rightarrow> obj \<Rightarrow> expense list \<Rightarrow> obj" where
  "accumulate_all keyOf ob es = foldl (\<lambda>ob e. accumulate ob (keyOf e) (amount e)) ob es"

section \<open>Evaluation and basic facts\<close>


lemmas string_defs = js_def trim_def is_ws_def starts_with_def toLowerCase_def lower_unit_def

lemmas number_defs = parseNumber_def parsePercent_def number_noise_def percent_noise_def
  parseFloat_def exponent_factor_def is_digit_def digits_val_def parseInt10_def Let_def


lemma bind_Inr: "bind (Inr x) f = f x"
  by (simp add: bind_def)

lemma bind_Inl: "bind (Inl e) f = Inl e"
  by (simp add: bind_def)

lemma dropWhile_none: "\<forall>c\<in>set s. \<not> P c \<Longrightarrow> dropWhile P s = s"
  by (cases s) auto

lemma trim_no_ws: "\<forall>c\<in>set s. \<not> is_ws c \<Longrightarrow> trim s = s"
  by (simp add: trim_def dropWhile_none)




section \<open>The tokenizer\<close>












section \<open>Numeric coercion\<close>

lemma trim_filter_noise:
  "trim (filter (\<lambda>c. \<not> number_noise c) s) = filter (\<lambda>c. \<not> number_noise c) s"
  by (rule trim_no_ws) (auto simp: number_noise_def)

lemma trim_filter_percent:
  "trim (filter (\<lambda>c. \<not> percent_noise c) s) = filter (\<lambda>c. \<not> percent_noise c) s"
  by (rule trim_no_ws) (auto simp: percent_noise_def)

lemma parseFloat_empty: "parseFloat [] = NaN"
  by (simp add: parseFloat_def starts_with_def js_def)

lemma parseNumber_cleaned:
  "trim (filter (\<lambda>c. \<not> number_noise c) s) = cl \<Longrightarrow> s \<noteq> [] \<Longrightarrow>
   parseNumber (Some s) =
     (if cl = [] \<or> cl = js ''-'' then Fin 0
      else if parseFloat cl = NaN then Fin 0 else parseFloat cl)"
  by (simp add: parseNumber_def Let_def)

lemma parsePercent_cleaned:
  "trim (filter (\<lambda>c. \<not> percent_noise c) s) = cl \<Longrightarrow> s \<noteq> [] \<Longrightarrow>
   parsePercent (Some s) = (if parseFloat cl = NaN then Fin 0 else parseFloat cl)"
  by (simp add: parsePercent_def Let_def)

text \<open>Removing the noise characters beforehand changes nothing: they are stripped.\<close>

lemma parseNumber_strips:
  "parseNumber (Some (filter (\<lambda>c. \<not> number_noise c) s)) = parseNumber (Some s)"
proof (cases "filter (\<lambda>c. \<not> number_noise c) s = []")
  case True
  then show ?thesis by (simp add: parseNumber_def trim_def)
next
  case False
  then have "s \<noteq> []" by auto
  then show ?thesis using False
    by (simp add: parseNumber_def trim_filter_noise
        trim_filter_noise[of "filter (\<lambda>c. \<not> number_noise c) s", simplified])
qed

lemma parsePercent_strips:
  "parsePercent (Some (filter (\<lambda>c. \<not> percent_noise c) s)) = parsePercent (Some s)"
proof (cases "filter (\<lambda>c. \<not> percent_noise c) s = []")
  case True
  then show ?thesis by (simp add: parsePercent_def trim_def parseFloat_empty)
next
  case False
  then have "s \<noteq> []" by auto
  then show ?thesis using False
    by (simp add: parsePercent_def trim_filter_percent
        trim_filter_percent[of "filter (\<lambda>c. \<not> percent_noise c) s", simplified])
qed

lemma digit_facts:
  "is_digit c \<Longrightarrow> \<not> is_ws c" "is_digit c \<Longrightarrow> \<not> number_noise c"
  "is_digit c \<Longrightarrow> \<not> percent_noise c" "is_digit c \<Longrightarrow> c \<noteq> 45" "is_digit c \<Longrightarrow> c \<noteq> 43"
  "is_digit c \<Longrightarrow> c \<noteq> 73" "is_digit c \<Longrightarrow> c \<noteq> 46"
  by (auto simp: is_digit_def is_ws_def number_noise_def percent_noise_def)

text \<open>
  \<open>parseFloat\<close> on a plain decimal numeral, followed by nothing or by a character that
  continues neither the fraction nor an exponent.
\<close>

lemma parseFloat_decimal:
  assumes "ip \<noteq> []" "\<forall>c\<in>set ip. is_digit c" "\<forall>c\<in>set fp. is_digit c"
    and "rest = [] \<or> (\<not> is_digit (hd rest) \<and> hd rest \<noteq> 101 \<and> hd rest \<noteq> 69)"
  shows "parseFloat (ip @ 46 # fp @ rest)
         = Fin (of_nat (digits_val ip) + of_nat (digits_val fp) / 10 ^ length fp)"
proof -
  obtain d ds where ip: "ip = d # ds" using assms(1) by (cases ip) auto
  then have d: "is_digit d" using assms(2) by simp
  have tw: "takeWhile is_digit (ip @ 46 # fp @ rest) = ip"
    using assms(2) by (simp add: is_digit_def)
  have dw: "dropWhile is_digit (ip @ 46 # fp @ rest) = 46 # fp @ rest"
    using assms(2) by (simp add: is_digit_def)
  have twf: "takeWhile is_digit (fp @ rest) = fp"
    using assms(3,4) by (cases rest) simp_all
  have dwf: "dropWhile is_digit (fp @ rest) = rest"
    using assms(3,4) by (cases rest) simp_all
  have ex: "exponent_factor rest = 1"
    using assms(4) by (cases rest) (auto simp: exponent_factor_def)
  have nws: "dropWhile is_ws (d # ds @ 46 # fp @ rest) = d # ds @ 46 # fp @ rest"
    using d by (simp add: digit_facts)
  show ?thesis
    unfolding parseFloat_def Let_def
    using tw dw twf dwf ex assms(1) d nws
    by (simp add: ip digit_facts starts_with_def js_def)
qed

lemma parseNumber_decimal:
  assumes "digits ip" "list_all is_digit fp"
  shows "parseNumber (Some (ip @ 46 # fp))
         = Fin (of_nat (digits_val ip) + of_nat (digits_val fp) / 10 ^ length fp)"
proof -
  have ip: "ip \<noteq> []" "\<forall>c\<in>set ip. is_digit c" and fp: "\<forall>c\<in>set fp. is_digit c"
    using assms by (simp_all add: digits_def list_all_iff)
  have "\<not> number_noise 46" by (simp add: number_noise_def is_ws_def)
  then have "\<forall>c\<in>set (ip @ 46 # fp). \<not> number_noise c"
    using ip fp by (auto simp: digit_facts)
  then have keep: "filter (\<lambda>c. \<not> number_noise c) (ip @ 46 # fp) = ip @ 46 # fp"
    by (intro filter_True) simp
  have pf: "parseFloat (ip @ 46 # fp @ [])
         = Fin (of_nat (digits_val ip) + of_nat (digits_val fp) / 10 ^ length fp)"
    using ip fp by (intro parseFloat_decimal) auto
  have ne: "ip @ 46 # fp \<noteq> js ''-''" using ip(1) by (cases ip) (auto simp: js_def)
  from trim_filter_noise[of "ip @ 46 # fp"]
  have cl: "trim (filter (\<lambda>c. \<not> number_noise c) (ip @ 46 # fp)) = ip @ 46 # fp"
    unfolding keep .
  show ?thesis
    using parseNumber_cleaned[OF cl] pf ne ip(1) by simp
qed

lemma parsePercent_decimal:
  assumes "digits ip" "list_all is_digit fp"
  shows "parsePercent (Some (ip @ 46 # fp @ [37]))
         = Fin (of_nat (digits_val ip) + of_nat (digits_val fp) / 10 ^ length fp)"
proof -
  have ip: "ip \<noteq> []" "\<forall>c\<in>set ip. is_digit c" and fp: "\<forall>c\<in>set fp. is_digit c"
    using assms by (simp_all add: digits_def list_all_iff)
  have "\<not> percent_noise 46" "percent_noise 37"
    by (simp_all add: percent_noise_def is_ws_def)
  moreover have "\<forall>c\<in>set (ip @ 46 # fp). \<not> percent_noise c"
    using ip fp calculation by (auto simp: digit_facts)
  then have "filter (\<lambda>c. \<not> percent_noise c) (ip @ 46 # fp) = ip @ 46 # fp"
    by (intro filter_True) simp
  ultimately have keep:
    "filter (\<lambda>c. \<not> percent_noise c) (ip @ 46 # fp @ [37]) = ip @ 46 # fp"
    by simp
  have pf: "parseFloat (ip @ 46 # fp @ [])
         = Fin (of_nat (digits_val ip) + of_nat (digits_val fp) / 10 ^ length fp)"
    using ip fp by (intro parseFloat_decimal) auto
  from trim_filter_percent[of "ip @ 46 # fp @ [37]"]
  have cl: "trim (filter (\<lambda>c. \<not> percent_noise c) (ip @ 46 # fp @ [37])) = ip @ 46 # fp"
    unfolding keep .
  show ?thesis
    using parsePercent_cleaned[OF cl] pf ip(1) by simp
qed

lemma parseNumber_unparsable:
  "parseFloat (trim (filter (\<lambda>c. \<not> number_noise c) s)) = NaN \<Longrightarrow> parseNumber (Some s) = Fin 0"
  by (simp add: parseNumber_def Let_def)






lemma noise_chars: "list_all number_noise (js ''$ ,MXN'')" "list_all percent_noise (js ''% '')"
  by (simp_all add: number_noise_def percent_noise_def is_ws_def js_def)

subsection \<open>Well-formed numbers\<close>

text \<open>
  On the text of a decimal number, decorated or not with the dollar sign, white space,
  commas and the letters of \<open>MXN\<close>, \<open>parseNumber\<close> returns the value of the number:
  integers, numerals with a fraction, and both with a minus sign.
\<close>

lemma parseNumber_clean:
  assumes "filter (\<lambda>c. \<not> number_noise c) s = cl" "cl \<noteq> []" "cl \<noteq> js ''-''"
    and "parseFloat cl \<noteq> NaN"
  shows "parseNumber (Some s) = parseFloat cl"
proof -
  have "s \<noteq> []" using assms(1,2) by auto
  moreover have "trim (filter (\<lambda>c. \<not> number_noise c) s) = cl"
    using trim_filter_noise[of s] assms(1) by simp
  ultimately show ?thesis
    using parseNumber_cleaned[of s cl] assms(2-4) by simp
qed

lemma parseFloat_prefix:
  assumes "digits ip"
    and "rest = [] \<or> (\<not> is_digit (hd rest) \<and> hd rest \<noteq> 46 \<and> hd rest \<noteq> 101 \<and> hd rest \<noteq> 69)"
  shows "parseFloat (ip @ rest) = Fin (of_nat (digits_val ip))"
proof -
  have ip: "ip \<noteq> []" "\<forall>c\<in>set ip. is_digit c"
    using assms(1) by (simp_all add: digits_def list_all_iff)
  then obtain d ds where c: "ip = d # ds" by (cases ip) auto
  then have d: "is_digit d" using ip(2) by simp
  have tw: "takeWhile is_digit (ip @ rest) = ip"
    using ip(2) assms(2) by (cases rest) simp_all
  have dw: "dropWhile is_digit (ip @ rest) = rest"
    using ip(2) assms(2) by (cases rest) simp_all
  have hd: "\<not> (rest \<noteq> [] \<and> hd rest = 46)" using assms(2) by auto
  have ex: "exponent_factor rest = 1"
    using assms(2) by (cases rest) (auto simp: exponent_factor_def)
  have nws: "dropWhile is_ws (d # ds @ rest) = d # ds @ rest"
    using d by (simp add: digit_facts)
  have dv: "digits_val [] = 0" by (simp add: digits_val_def)
  show ?thesis
    unfolding parseFloat_def Let_def
    using tw dw hd ex ip(1) d nws
    by (auto simp add: c digit_facts starts_with_def js_def dv)
qed

lemma parseFloat_integer: "digits ip \<Longrightarrow> parseFloat ip = Fin (of_nat (digits_val ip))"
  using parseFloat_prefix[of ip "[]"] by simp

text \<open>A minus sign before a numeral negates its value.\<close>

lemma parseFloat_minus:
  assumes "body \<noteq> []" "is_digit (hd body)" "parseFloat body = Fin q"
  shows "parseFloat (45 # body) = Fin (- q)"
proof -
  obtain d ds where c: "body = d # ds" using assms(1) by (cases body) auto
  then have d: "is_digit d" using assms(2) by simp
  have nws: "dropWhile is_ws (d # ds) = d # ds" using d by (simp add: digit_facts)
  have m: "\<not> is_ws 45" by (simp add: is_ws_def)
  have "parseFloat (45 # d # ds) = (case parseFloat (d # ds) of Fin x \<Rightarrow> Fin (- x) | x \<Rightarrow> x)"
    unfolding parseFloat_def Let_def
    by (simp add: nws m d digit_facts starts_with_def js_def)
  then show ?thesis using assms(3) by (simp add: c)
qed

lemma parseNumber_integer:
  assumes "digits ip" "filter (\<lambda>c. \<not> number_noise c) s = ip"
  shows "parseNumber (Some s) = Fin (of_nat (digits_val ip))"
proof -
  have "ip \<noteq> []" "ip \<noteq> js ''-''"
    using assms(1) by (auto simp: digits_def js_def is_digit_def)
  then show ?thesis
    using parseNumber_clean[OF assms(2)] parseFloat_integer[OF assms(1)] by simp
qed

lemma parseNumber_negative_integer:
  assumes "digits ip" "filter (\<lambda>c. \<not> number_noise c) s = 45 # ip"
  shows "parseNumber (Some s) = Fin (- of_nat (digits_val ip))"
proof -
  have ip: "ip \<noteq> []" "is_digit (hd ip)"
    using assms(1) by (cases ip; simp add: digits_def)+
  have "parseFloat (45 # ip) = Fin (- of_nat (digits_val ip))"
    using parseFloat_minus[OF ip parseFloat_integer[OF assms(1)]] .
  moreover have "45 # ip \<noteq> js ''-''" using ip(1) by (simp add: js_def)
  ultimately show ?thesis
    using parseNumber_clean[OF assms(2)] by simp
qed

lemma parseNumber_decimal_text:
  assumes "digits ip" "list_all is_digit fp"
    and "filter (\<lambda>c. \<not> number_noise c) s = ip @ 46 # fp"
  shows "parseNumber (Some s)
         = Fin (of_nat (digits_val ip) + of_nat (digits_val fp) / 10 ^ length fp)"
  using parseNumber_strips[of s] parseNumber_decimal[OF assms(1,2)] assms(3) by simp

lemma parseNumber_negative_decimal:
  assumes "digits ip" "list_all is_digit fp"
    and "filter (\<lambda>c. \<not> number_noise c) s = 45 # ip @ 46 # fp"
  shows "parseNumber (Some s)
         = Fin (- (of_nat (digits_val ip) + of_nat (digits_val fp) / 10 ^ length fp))"
proof -
  have ip: "ip \<noteq> []" "\<forall>c\<in>set ip. is_digit c" "is_digit (hd ip)"
    and fp: "\<forall>c\<in>set fp. is_digit c"
    using assms(1,2) by (cases ip; simp add: digits_def list_all_iff)+
  have "parseFloat (ip @ 46 # fp @ [])
        = Fin (of_nat (digits_val ip) + of_nat (digits_val fp) / 10 ^ length fp)"
    using ip fp by (intro parseFloat_decimal) auto
  then have "parseFloat (45 # ip @ 46 # fp)
        = Fin (- (of_nat (digits_val ip) + of_nat (digits_val fp) / 10 ^ length fp))"
    using ip by (intro parseFloat_minus) auto
  moreover have "45 # ip @ 46 # fp \<noteq> js ''-''" by (simp add: js_def)
  ultimately show ?thesis
    using parseNumber_clean[OF assms(3)] by simp
qed

lemma parseNumber_decorated:
  "parseNumber (Some (js ''$45,000'')) = Fin 45000"
  "parseNumber (Some (js ''-$1,234.50 MXN'')) = Fin (- (123450 / 100))"
  "parseNumber (Some (js '' 7 '')) = Fin 7"
  by (simp_all add: number_defs string_defs)

lemma decimal_text_examples:
  "decimal_text (js ''1234.56'')" "decimal_text (js ''-7'')" "decimal_text (js ''.5'')"
  "decimal_text (js ''12.'')" "\<not> decimal_text (js ''-'')" "\<not> decimal_text []"
  "\<not> decimal_text (js ''.'')" "\<not> decimal_text (js ''1.2.3'')"
  by (simp_all add: decimal_text_def string_defs number_defs)

subsection \<open>Remainders that are not numbers\<close>

text \<open>
  \<open>parseFloat\<close> reads the longest numeric prefix and ignores what follows it. So a numeral
  followed by anything that is neither a digit, a point nor an exponent mark is read as
  the numeral, by \<open>parseNumber\<close> too: 0 is returned only when the cleaned text does not
  begin with a number.
\<close>

lemma parseNumber_reads_prefix:
  assumes "digits ip" "\<forall>c\<in>set rest. \<not> number_noise c"
    and "\<not> is_digit (hd rest)" "hd rest \<noteq> 46" "hd rest \<noteq> 101" "hd rest \<noteq> 69"
  shows "parseNumber (Some (ip @ rest)) = Fin (of_nat (digits_val ip))"
proof -
  have ip: "ip \<noteq> []" "\<forall>c\<in>set ip. is_digit c"
    using assms(1) by (simp_all add: digits_def list_all_iff)
  have "\<forall>c\<in>set (ip @ rest). \<not> number_noise c"
    using ip(2) assms(2) by (auto simp: digit_facts)
  then have keep: "filter (\<lambda>c. \<not> number_noise c) (ip @ rest) = ip @ rest"
    by (intro filter_True) simp
  have pf: "parseFloat (ip @ rest) = Fin (of_nat (digits_val ip))"
    using assms(1,3-6) by (intro parseFloat_prefix) auto
  have "ip @ rest \<noteq> js ''-''"
    using ip by (cases ip) (auto simp: js_def is_digit_def)
  then show ?thesis
    using parseNumber_clean[OF keep] pf ip(1) by simp
qed

lemma parsePercent_reads_prefix: "parsePercent (Some (js ''12abc%'')) = Fin 12"
  by (simp add: number_defs string_defs)

text \<open>
  Claim C2: the code departs from it. The text \<open>12abc\<close> holds no currency symbol, white
  space, comma or currency code, and it is not a decimal number, so by the claim (and by
  the function's own description, which promises a float, or 0 if the text is not
  parseable) \<open>parseNumber\<close> gives 0 for it; the code gives 12, the value of its numeric prefix. The
  text \<open>1x5\<close> is not a number either, and its \<open>x\<close> is no currency code; the code removes
  every letter \<open>M\<close>, \<open>X\<close> and \<open>N\<close>, in either case and wherever it stands, and gives 15. Both
  values are small integers, so that rounding plays no part. (On the text of a decimal
  number and on the examples of the specification the code does what the claim says:
  \<open>parseNumber_integer\<close>, \<open>parseNumber_decimal_text\<close>, \<open>parseNumber_negative_decimal\<close>,
  \<open>parseNumber_examples\<close>, \<open>parsePercent_examples\<close>.)
\<close>

theorem parseNumber_numeric_prefix:
  "\<not> decimal_text (js ''12abc'') \<and> parseNumber (Some (js ''12abc'')) = Fin 12 \<and>
   \<not> decimal_text (js ''1x5'') \<and> parseNumber (Some (js ''1x5'')) = Fin 15"
  by (simp add: decimal_text_def number_defs string_defs)

section \<open>Dates\<close>

lemma split_on_no_sep: "sep \<notin> set s \<Longrightarrow> split_on sep s = [s]"
  by (induction s) auto

lemma split_on_append: "sep \<notin> set a \<Longrightarrow> split_on sep (a @ sep # b) = a # split_on sep b"
  by (induction a) auto

lemma digits_no_slash: "digits s \<Longrightarrow> slash \<notin> set s"
  by (auto simp: digits_def list_all_iff is_digit_def slash_def)

lemma split_mdy:
  "digits m \<Longrightarrow> digits d \<Longrightarrow> digits y \<Longrightarrow>
   split_on slash (m @ slash # d @ slash # y) = [m, d, y]"
  by (simp add: split_on_append split_on_no_sep digits_no_slash)

lemma parseInt10_digits:
  assumes "digits s"
  shows "parseInt10 s = Some (int (digits_val s))"
proof -
  obtain c cs where s: "s = c # cs" using assms by (cases s) (auto simp: digits_def)
  then have "is_digit c" using assms by (simp add: digits_def)
  then have "\<not> is_ws c" "c \<noteq> 45" "c \<noteq> 43" by (auto simp: is_digit_def is_ws_def)
  moreover have "takeWhile is_digit s = s" using assms by (simp add: digits_def list_all_iff)
  ultimately show ?thesis using s by (simp add: parseInt10_def)
qed

lemma parseDate_mdy:
  assumes "digits m" "digits d" "digits y"
  shows "parseDate dp (m @ slash # d @ slash # y)
         = Some (DateYMD (int (digits_val y)) (int (digits_val m) - 1) (int (digits_val d)))"
  using assms by (simp add: parseDate_def split_mdy parseInt10_digits)

lemma parseDate_three:
  assumes "split_on slash str = [a, b, c]"
    and "parseInt10 a = Some m" "parseInt10 b = Some d" "parseInt10 c = Some y"
  shows "parseDate dp str = Some (DateYMD y (m - 1) d)"
proof -
  have "str \<noteq> []" using assms(1) by auto
  then show ?thesis using assms by (simp add: parseDate_def)
qed


lemmas date_defs = slash_def parseDate_def

lemma parseDate_march: "parseDate dp (js ''3/4/2024'') = Some (DateYMD 2024 2 4)"
  by (simp add: date_defs number_defs string_defs)

lemma parseDate_not_a_date:
  "dp (js ''not-a-date'') = None \<Longrightarrow> parseDate dp (js ''not-a-date'') = None"
  by (simp add: date_defs number_defs string_defs)

text \<open>
  Claim C5: the code departs from it. The first branch of \<open>parseDate\<close> is meant for
  \<open>MM/DD/YYYY\<close> or \<open>M/D/YYYY\<close>, and every other string is to go to the generic parser. But
  the branch is taken by every string of three slash-separated parts from each of which
  \<open>parseInt\<close> reads a number. The string \<open>2024/03/04\<close> is not of the shape \<open>M/D/YYYY\<close>, yet
  whatever the generic parser would make of it, it is read as month 2024, day 3 and year 4
  and the result is \<open>new Date(4, 2023, 3)\<close>, a day of August 2072. Likewise \<open>3x/4/2024\<close> is
  read as \<open>3/4/2024\<close>. (On strings of the shape \<open>M/D/YYYY\<close>, and on strings that do not
  split into three such parts, the code does what the claim says: \<open>parseDate_mdy\<close>,
  \<open>parseDate_march\<close>, \<open>parseDate_fallback\<close>, \<open>parseDate_not_a_date\<close>.)
\<close>

theorem parseDate_other_shapes:
  "\<not> mdy_shape (js ''2024/03/04'') \<and>
   parseDate dp (js ''2024/03/04'') = Some (DateYMD 4 2023 3) \<and>
   \<not> mdy_shape (js ''3x/4/2024'') \<and>
   parseDate dp (js ''3x/4/2024'') = Some (DateYMD 2024 2 4)"
  by (simp add: date_defs number_defs string_defs mdy_shape_def digits_def)

section \<open>The expense ledger\<close>

lemma expenses_loop_filter:
  "expenses_loop dp rows acc = acc @ map (expense_of dp) (filter kept_row rows)"
proof (induction rows arbitrary: acc)
  case Nil
  then show ?case by simp
next
  case (Cons r rows)
  show ?case
  proof (cases "length r < 5")
    case True
    then show ?thesis using Cons by (simp add: kept_row_def)
  next
    case False
    then have c: "\<And>k. k < 5 \<Longrightarrow> or_else (cell r k) [] = r ! k" "cell r 4 = Some (r ! 4)"
      by (auto simp: or_else_def cell_truthy_def cell_def)
    show ?thesis using False Cons
      by (simp add: c Let_def kept_row_def expense_of_def)
  qed
qed

lemma parseExpenses_filter:
  "parseExpenses dp rows = map (expense_of dp) (filter kept_row (drop 1 rows))"
  by (simp add: parseExpenses_def expenses_loop_filter)

lemma expense_amount_default:
  "parseFloat (trim (filter (\<lambda>c. \<not> number_noise c) (r ! 4))) = NaN \<Longrightarrow>
   amount (expense_of dp r) = Fin 0"
  by (simp add: expense_of_def parseNumber_unparsable)

text \<open>
  Claim C6, as stated, fails. A data row with a category but only four cells is
  discarded, although it has a category.
\<close>

theorem parseExpenses_short_row_counterexample:
  "trim ([js ''1/5/2024'', js ''Hard Cost'', js ''Cimentacion'', js ''Acero''] ! 1) \<noteq> [] \<and>
   parseExpenses Map.empty
     [[js ''Fecha'', js ''Categoria'', js ''Subcategoria'', js ''Detalle''],
      [js ''1/5/2024'', js ''Hard Cost'', js ''Cimentacion'', js ''Acero'']] = []"
  by (simp add: parseExpenses_def string_defs)

text \<open>
  Claim C6, amended. \<open>parseExpenses\<close> skips the header row and, of the rows after it,
  discards exactly those with fewer than five cells and those with neither a category nor
  a non-zero amount: the result is one expense, in order, for every other row, made of
  the trimmed cells A, B, C and the amount read from cell E, which is 0 when no number
  can be read from it.
\<close>

theorem parseExpenses_kept_rows:
  "parseExpenses dp rows = map (expense_of dp) (filter kept_row (drop 1 rows)) \<and>
   (parseFloat (trim (filter (\<lambda>c. \<not> number_noise c) (r ! 4))) = NaN \<longrightarrow>
      amount (expense_of dp r) = Fin 0)"
  using parseExpenses_filter[of dp rows] expense_amount_default[of r dp] by blast

theorem parseExpenses_kept_rows_witness:
  "parseExpenses Map.empty
     [[js ''Fecha'', js ''Categoria'', js ''Subcategoria'', js ''Detalle'', js ''Monto''],
      [js ''1/5/2024'', js ''Hard Cost'', js ''Cimentacion'', js ''Acero'', js ''$1,500.00''],
      [[], [], [], [], []],
      [js ''1/6/2024'', js ''Soft Cost'', js ''Legal'', js ''Notario'', js ''pendiente''],
      [js ''1/7/2024'', js ''Terreno'', js ''Lote 1'']]
   = [\<lparr>date = js ''1/5/2024'', dateObj = Some (DateYMD 2024 0 5), category = js ''Hard Cost'',
       subcategory = js ''Cimentacion'', amount = Fin 1500\<rparr>,
      \<lparr>date = js ''1/6/2024'', dateObj = Some (DateYMD 2024 0 6), category = js ''Soft Cost'',
       subcategory = js ''Legal'', amount = Fin 0\<rparr>]"
  using parseExpenses_kept_rows
          [of Map.empty
              "[[js ''Fecha'', js ''Categoria'', js ''Subcategoria'', js ''Detalle'', js ''Monto''],
                [js ''1/5/2024'', js ''Hard Cost'', js ''Cimentacion'', js ''Acero'', js ''$1,500.00''],
                [[], [], [], [], []],
                [js ''1/6/2024'', js ''Soft Cost'', js ''Legal'', js ''Notario'', js ''pendiente''],
                [js ''1/7/2024'', js ''Terreno'', js ''Lote 1'']]"
              "[js ''1/6/2024'', js ''Soft Cost'', js ''Legal'', js ''Notario'', js ''pendiente'']"]
  by (simp add: kept_row_def expense_of_def num_truthy_def number_defs date_defs string_defs)

section \<open>The capital sheet\<close>

lemma row_at_nat: "row_at rows (int i) = (if i < length rows then Some (rows ! i) else None)"
  by (simp add: row_at_def)


lemma use_at_eq:
  "use_at rows k =
     Inr (case row_at rows k of
            None \<Rightarrow> None
          | Some r \<Rightarrow>
              Some \<lparr>use_amount = parseNumber (cell r 2), use_pct = parsePercent (cell r 3)\<rparr>)"
  by (auto simp: use_at_def bind_def cell_of_def split: option.splits)

lemma indicator_at_eq:
  "indicator_at rows k parse dflt =
     Inr (case row_at rows k of
            None \<Rightarrow> None
          | Some r \<Rightarrow>
              Some \<lparr>ind_value = parse (cell r 2), ind_label = trim (or_else (cell r 0) dflt)\<rparr>)"
  by (auto simp: indicator_at_def bind_def cell_of_def split: option.splits)

lemma investor_at_eq:
  "i < length rows \<Longrightarrow>
   investor_at rows i = Inr (if named (rows ! i) then Some (investor_of (rows ! i)) else None)"
  by (auto simp: investor_at_def row_at_nat Let_def bind_def cell_of_def trim_of_def named_def
      investor_of_def cell_truthy_def cell_def split: option.splits)

text \<open>
  The investor loop, started at any index up to 11: it never fails, and it pushes the
  rows up to index 10 that come before the first row without a name.
\<close>

lemma investors_loop_eq:
  "i \<le> 11 \<Longrightarrow>
   investors_loop rows i acc
     = Inr (acc @ map investor_of (takeWhile named (take (11 - i) (drop i rows))))"
proof (induction rows i acc rule: investors_loop.induct)
  case (1 rows i acc)
  show ?case
  proof (cases "i < 11 \<and> i < length rows")
    case False
    then show ?thesis using "1.prems" by (subst investors_loop.simps) auto
  next
    case True
    then obtain k where k: "11 - i = Suc k" by (cases "11 - i") auto
    have d: "drop i rows = rows ! i # drop (Suc i) rows"
      using True by (simp add: Cons_nth_drop_Suc)
    show ?thesis
    proof (cases "named (rows ! i)")
      case False
      then show ?thesis using True
        by (subst investors_loop.simps) (simp add: investor_at_eq k d)
    next
      case n: True
      have "investors_loop rows (i + 1) (acc @ [investor_of (rows ! i)])
            = Inr ((acc @ [investor_of (rows ! i)]) @
                   map investor_of (takeWhile named (take (11 - (i + 1)) (drop (i + 1) rows))))"
        using True n by (intro "1.IH") (simp_all add: investor_at_eq)
      moreover have "11 - (i + 1) = k" using k by simp
      ultimately show ?thesis using True n
        by (subst investors_loop.simps) (simp add: investor_at_eq k d)
    qed
  qed
qed

lemma parseCapital_eq:
  "parseCapital rows =
     Inr \<lparr>uses_hardCosts = projr (use_at rows 1), uses_softCosts = projr (use_at rows 2),
          uses_terreno = projr (use_at rows 3),
          investors = map investor_of (takeWhile named (take 5 (drop 6 rows))),
          totalIncome = projr (indicator_at rows 12 parseNumber (js ''Ingresos Totales'')),
          projectCost = projr (indicator_at rows 13 parseNumber (js ''Costo del Proyecto'')),
          profit = projr (indicator_at rows 14 parseNumber (js ''Utilidad'')),
          margin = projr (indicator_at rows 15 parsePercent (js ''Margen de Utilidad'')),
          capitalContributed = projr (indicator_at rows 18 parseNumber (js ''Capital Aportado'')),
          totalReturn = projr (indicator_at rows 19 parseNumber (js ''Retorno Total'')),
          roi = projr (indicator_at rows 20 parsePercent (js ''ROI'')),
          capitalMultiple =
            projr (indicator_at rows 21 parseNumber (js ''M'' @ [250] @ js ''ltiplo de Capital''))\<rparr>"
proof -
  have l: "investors_loop rows 6 []
           = Inr (map investor_of (takeWhile named (take 5 (drop 6 rows))))"
    using investors_loop_eq[of 6 rows "[]"] by simp
  show ?thesis
    unfolding parseCapital_def l use_at_eq indicator_at_eq bind_Inr by simp
qed


lemma six_investors_rows:
  "row_at six_investors 1 = Some []" "row_at six_investors 2 = Some []"
  "row_at six_investors 3 = Some []"
  "row_at six_investors 12 = None" "row_at six_investors 13 = None"
  "row_at six_investors 14 = None" "row_at six_investors 15 = None"
  "row_at six_investors 18 = None" "row_at six_investors 19 = None"
  "row_at six_investors 20 = None" "row_at six_investors 21 = None"
  by (simp_all add: row_at_def six_investors_def)

lemma six_investors_window:
  "take 5 (drop 6 six_investors)
   = [[js ''Ana'', [], js ''$100''], [js ''Beto'', [], js ''$200''], [js ''Caro'', [], js ''$300''],
      [js ''Dani'', [], js ''$400''], [js ''Eva'', [], js ''$500'']]"
  "drop 6 six_investors
   = [[js ''Ana'', [], js ''$100''], [js ''Beto'', [], js ''$200''], [js ''Caro'', [], js ''$300''],
      [js ''Dani'', [], js ''$400''], [js ''Eva'', [], js ''$500''], [js ''Fer'', [], js ''$600'']]"
  by (simp_all add: six_investors_def)

lemma named_row: "n \<noteq> [] \<Longrightarrow> \<not> is_ws (hd n) \<Longrightarrow> named (n # cells)"
  by (cases n) (auto simp: named_def cell_def cell_truthy_def trim_def)

lemma six_investors_named:
  "named [js ''Ana'', [], js ''$100'']" "named [js ''Beto'', [], js ''$200'']"
  "named [js ''Caro'', [], js ''$300'']" "named [js ''Dani'', [], js ''$400'']"
  "named [js ''Eva'', [], js ''$500'']" "named [js ''Fer'', [], js ''$600'']"
  by (rule named_row; simp add: js_def is_ws_def)+

lemma six_investors_parsed:
  "investor_of [js ''Ana'', [], js ''$100''] = \<lparr>investor_name = js ''Ana'', investor_amount = Fin 100\<rparr>"
  "investor_of [js ''Beto'', [], js ''$200''] = \<lparr>investor_name = js ''Beto'', investor_amount = Fin 200\<rparr>"
  "investor_of [js ''Caro'', [], js ''$300''] = \<lparr>investor_name = js ''Caro'', investor_amount = Fin 300\<rparr>"
  "investor_of [js ''Dani'', [], js ''$400''] = \<lparr>investor_name = js ''Dani'', investor_amount = Fin 400\<rparr>"
  "investor_of [js ''Eva'', [], js ''$500''] = \<lparr>investor_name = js ''Eva'', investor_amount = Fin 500\<rparr>"
  by (simp_all add: investor_of_def cell_def number_defs string_defs)

text \<open>
  Claim C9, as stated, fails. In a sheet with six investor rows at the indices 6 to 11,
  none of them blank, the sixth has no blank name cell before it and yet is not in the
  result: the loop stops before index 11.
\<close>

theorem parseCapital_sixth_investor_counterexample:
  "list_all named (drop 6 six_investors) \<and> length (drop 6 six_investors) = 6 \<and>
   parseCapital six_investors
     = Inr (empty_capital
         \<lparr>uses_hardCosts := Some \<lparr>use_amount = Fin 0, use_pct = Fin 0\<rparr>,
          uses_softCosts := Some \<lparr>use_amount = Fin 0, use_pct = Fin 0\<rparr>,
          uses_terreno := Some \<lparr>use_amount = Fin 0, use_pct = Fin 0\<rparr>,
          investors :=
            [\<lparr>investor_name = js ''Ana'', investor_amount = Fin 100\<rparr>,
             \<lparr>investor_name = js ''Beto'', investor_amount = Fin 200\<rparr>,
             \<lparr>investor_name = js ''Caro'', investor_amount = Fin 300\<rparr>,
             \<lparr>investor_name = js ''Dani'', investor_amount = Fin 400\<rparr>,
             \<lparr>investor_name = js ''Eva'', investor_amount = Fin 500\<rparr>]\<rparr>)"
  unfolding parseCapital_eq use_at_eq indicator_at_eq six_investors_rows six_investors_window
  by (simp add: six_investors_named six_investors_parsed empty_capital_def cell_def
      parseNumber_def parsePercent_def)

text \<open>
  Claim C9, amended. \<open>parseCapital\<close> never fails, and it reads the investors by fixed
  offset from at most five rows, those at the indices 6 to 10: the run of consecutive rows
  from index 6 on, ended by the first blank name cell or by index 11, whichever comes
  first, each row giving, in order, an investor with the trimmed name of column A and the
  amount of column C. Every investor row of that window before the first blank name cell
  is in the result.
\<close>

theorem parseCapital_investors_window:
  "\<exists>c. parseCapital rows = Inr c \<and>
       investors c = map investor_of (takeWhile named (take 5 (drop 6 rows)))"
proof -
  have l: "investors_loop rows 6 []
           = Inr (map investor_of (takeWhile named (take 5 (drop 6 rows))))"
    using investors_loop_eq[of 6 rows "[]"] by simp
  show ?thesis
    unfolding parseCapital_def l use_at_eq indicator_at_eq bind_Inr by simp
qed

theorem parseCapital_investors_window_witness:
  "\<exists>c. parseCapital six_investors = Inr c \<and>
       map investor_name (investors c)
         = [js ''Ana'', js ''Beto'', js ''Caro'', js ''Dani'', js ''Eva'']"
  using parseCapital_investors_window[of six_investors]
  by (auto simp: six_investors_window six_investors_named six_investors_parsed)

section \<open>The budget sheet\<close>









lemma parse_empty:
  "parseCSV [] = []"
  "parseExpenses dp [] = []"
  "parseBudget [] = Inr empty_budget"
  "parseCapital [] = Inr empty_capital"
  by (simp_all add: parseCSV_def parseExpenses_def parseBudget_def parseCapital_eq bind_def
      house_at_def total_at_def findRow_def softLabels_def terrenoLabels_def item_at_def
      Let_def use_at_eq indicator_at_eq row_at_def empty_budget_def empty_capital_def)




section \<open>Fetching and the cache\<close>

lemma promise_all_fail:
  "isl a \<or> isl b \<or> isl c \<Longrightarrow>
   \<exists>e. promise_all a b c = Inl e \<and> (a = Inl e \<or> b = Inl e \<or> c = Inl e)"
  by (cases a; cases b; cases c) (auto simp: promise_all_def bind_def)

lemma fetchAllData_fail:
  assumes "\<not> cache_fresh s now p"
    and "isl (fetchCSV net (sheets_budget p)) \<or> isl (fetchCSV net (sheets_desglose p))
         \<or> isl (fetchCSV net (sheets_capital p))"
  shows "\<exists>e. fetchAllData net dp now later s p
              = (Inl e, s, [sheets_budget p, sheets_desglose p, sheets_capital p]) \<and>
             (fetchCSV net (sheets_budget p) = Inl e \<or> fetchCSV net (sheets_desglose p) = Inl e
              \<or> fetchCSV net (sheets_capital p) = Inl e)"
proof -
  obtain e where e:
    "promise_all (fetchCSV net (sheets_budget p)) (fetchCSV net (sheets_desglose p))
       (fetchCSV net (sheets_capital p)) = Inl e"
    "fetchCSV net (sheets_budget p) = Inl e \<or> fetchCSV net (sheets_desglose p) = Inl e
       \<or> fetchCSV net (sheets_capital p) = Inl e"
    using promise_all_fail[OF assms(2)] by blast
  show ?thesis
    using assms(1) e(2) by (simp add: fetchAllData_def Let_def e(1) bind_Inl)
qed

lemma fetchCSV_http:
  "net url = Reply status statusText body \<Longrightarrow> \<not> (200 \<le> status \<and> status \<le> 299) \<Longrightarrow>
   fetchCSV net url = Inl (HttpError status statusText)"
  by (simp add: fetchCSV_def)

lemma fetchCSV_transport:
  "net url = Rejected msg \<Longrightarrow> fetchCSV net url = Inl (TransportError msg)"
  by (simp add: fetchCSV_def)

lemma fetchCSV_body:
  "net url = Reply status statusText (Inl msg) \<Longrightarrow> 200 \<le> status \<and> status \<le> 299 \<Longrightarrow>
   fetchCSV net url = Inl (TransportError msg)"
  by (simp add: fetchCSV_def)

lemma message_http:
  "message (HttpError status statusText) = js ''HTTP '' @ decimal status @ js '': '' @ statusText"
  by (simp add: message_def)

lemma fetch_empty_sheets: "fetchCSV empty_sheets url = Inr []"
  by (simp add: fetchCSV_def empty_sheets_def parse_empty)

lemma fetch_failing_ledger:
  "fetchCSV failing_ledger (js ''a/budget'') = Inr []"
  "fetchCSV failing_ledger (js ''a/desglose'') = Inl (HttpError 404 (js ''Not Found''))"
  "fetchCSV failing_ledger (js ''a/capital'') = Inr []"
  by (simp_all add: fetchCSV_def failing_ledger_def parse_empty js_def)

text \<open>
  Claim C7. When the cache does not answer the call, the three fetches are issued, and if
  any of them fails the call fails as a whole: the result is a single error, that of a
  failed fetch, there is no snapshot, and the service (the cache entries and the cache
  timestamp) is what it was before the call. A fetch fails with the error
  \<open>HTTP status: statusText\<close> when the status is not in 200 to 299, and with the
  transport's own message when the request is rejected or the body cannot be read.
\<close>

theorem fetchAllData_failure:
  "(\<not> cache_fresh s now p \<and>
    (isl (fetchCSV net (sheets_budget p)) \<or> isl (fetchCSV net (sheets_desglose p)) \<or>
     isl (fetchCSV net (sheets_capital p))) \<longrightarrow>
      (\<exists>e. fetchAllData net dp now later s p
              = (Inl e, s, [sheets_budget p, sheets_desglose p, sheets_capital p]) \<and>
           (fetchCSV net (sheets_budget p) = Inl e \<or> fetchCSV net (sheets_desglose p) = Inl e \<or>
            fetchCSV net (sheets_capital p) = Inl e))) \<and>
   (net url = Reply status statusText body \<and> \<not> (200 \<le> status \<and> status \<le> 299) \<longrightarrow>
      fetchCSV net url = Inl (HttpError status statusText)) \<and>
   message (HttpError status statusText) = js ''HTTP '' @ decimal status @ js '': '' @ statusText \<and>
   (net url = Rejected msg \<longrightarrow> fetchCSV net url = Inl (TransportError msg)) \<and>
   (net url = Reply status statusText (Inl msg) \<and> 200 \<le> status \<and> status \<le> 299 \<longrightarrow>
      fetchCSV net url = Inl (TransportError msg)) \<and>
   message (TransportError msg) = msg"
proof -
  have "message (TransportError msg) = msg"
    by (simp add: message_def)
  then show ?thesis
    using fetchAllData_fail[of s now p net dp later]
      fetchCSV_http[of net url status statusText body] message_http[of status statusText]
      fetchCSV_transport[of net url msg] fetchCSV_body[of net url status statusText msg]
    by blast
qed

theorem fetchAllData_failure_witness:
  "fetchAllData failing_ledger Map.empty 1000000 1000500 service0 project_A
     = (Inl (HttpError 404 (js ''Not Found'')), service0,
        [js ''a/budget'', js ''a/desglose'', js ''a/capital'']) \<and>
   message (HttpError 404 (js ''Not Found'')) = js ''HTTP 404: Not Found''"
proof -
  note th = fetchAllData_failure
              [of service0 1000000 project_A failing_ledger Map.empty 1000500
                  "js ''a/desglose''" 404 "js ''Not Found''" "Inr []" "[]"]
  have urls: "sheets_budget project_A = js ''a/budget''"
    "sheets_desglose project_A = js ''a/desglose''" "sheets_capital project_A = js ''a/capital''"
    by (simp_all add: project_A_def)
  have fresh: "\<not> cache_fresh service0 1000000 project_A"
    by (simp add: cache_fresh_def service0_def)
  have failed: "isl (fetchCSV failing_ledger (sheets_desglose project_A))"
    by (simp add: urls fetch_failing_ledger)
  from th fresh failed obtain e where
    e: "fetchAllData failing_ledger Map.empty 1000000 1000500 service0 project_A
        = (Inl e, service0, [sheets_budget project_A, sheets_desglose project_A, sheets_capital project_A])"
    and which: "fetchCSV failing_ledger (sheets_budget project_A) = Inl e \<or>
           fetchCSV failing_ledger (sheets_desglose project_A) = Inl e \<or>
           fetchCSV failing_ledger (sheets_capital project_A) = Inl e"
    by blast
  from which have "e = HttpError 404 (js ''Not Found'')"
    by (simp add: urls fetch_failing_ledger)
  moreover have "decimal 404 = js ''404''"
    by (simp add: js_def)
  moreover from th have "message (HttpError 404 (js ''Not Found''))
         = js ''HTTP '' @ decimal 404 @ js '': '' @ js ''Not Found''"
    by blast
  ultimately show ?thesis
    using e by (simp add: urls js_def)
qed

text \<open>
  What holds of the cache for one project: after a successful fetch at a time \<open>now\<close>
  (other than 0) a call within the window is answered from the cache without a request,
  a call after the window sends the requests again, and so does a call after
  \<open>clearCache\<close>.
\<close>

lemma fetchAllData_stores:
  assumes "fetchAllData net dp now later s p = (Inr v, s', reqs)" "reqs \<noteq> []"
  shows "map_of (cache s') (key p) = Some v \<and> cacheTimestamp s' = Some now"
  using assms
  by (auto simp: fetchAllData_def Let_def update_Some_unfold split: if_splits sum.splits)

lemma fetchAllData_cached:
  assumes "map_of (cache s) (key p) = Some v" "cacheTimestamp s = Some t" "t \<noteq> 0"
    and "now - t < CACHE_TTL"
  shows "fetchAllData net dp now later s p = (Inr v, s, [])"
  using assms by (simp add: fetchAllData_def cache_fresh_def)

lemma fetchAllData_expired:
  assumes "cacheTimestamp s = Some t" "CACHE_TTL \<le> now - t"
  shows "snd (snd (fetchAllData net dp now later s p))
         = [sheets_budget p, sheets_desglose p, sheets_capital p]"
  using assms by (simp add: fetchAllData_def cache_fresh_def Let_def split: sum.splits)

lemma fetchAllData_after_clearCache:
  "snd (snd (fetchAllData net dp now later (clearCache s) p))
   = [sheets_budget p, sheets_desglose p, sheets_capital p]"
  by (simp add: fetchAllData_def cache_fresh_def clearCache_def Let_def split: sum.splits)

lemma first_fetch_A:
  "fetchAllData empty_sheets Map.empty 1000000 1000500 service0 project_A
   = (Inr \<lparr>snap_budget = empty_budget, snap_expenses = [], snap_capital = empty_capital,
           fetchedAt = 1000500\<rparr>,
      \<lparr>cache = [(js ''A'', \<lparr>snap_budget = empty_budget, snap_expenses = [],
                            snap_capital = empty_capital, fetchedAt = 1000500\<rparr>)],
       cacheTimestamp = Some 1000000\<rparr>,
      [js ''a/budget'', js ''a/desglose'', js ''a/capital''])"
  by (simp add: fetchAllData_def cache_fresh_def service0_def fetch_empty_sheets promise_all_def
      bind_def parse_empty project_A_def)

lemma service1_eq:
  "service1 = \<lparr>cache = [(js ''A'', \<lparr>snap_budget = empty_budget, snap_expenses = [],
                            snap_capital = empty_capital, fetchedAt = 1000500\<rparr>)],
       cacheTimestamp = Some 1000000\<rparr>"
  by (simp add: service1_def first_fetch_A)

lemma AB_distinct: "js ''A'' \<noteq> js ''B''" "js ''B'' \<noteq> js ''A''"
  by (simp_all add: js_def)

lemma second_fetch_B:
  "fetchAllData empty_sheets Map.empty 1240000 1240500 service1 project_B
   = (Inr \<lparr>snap_budget = empty_budget, snap_expenses = [], snap_capital = empty_capital,
           fetchedAt = 1240500\<rparr>,
      \<lparr>cache = [(js ''A'', \<lparr>snap_budget = empty_budget, snap_expenses = [],
                            snap_capital = empty_capital, fetchedAt = 1000500\<rparr>),
                (js ''B'', \<lparr>snap_budget = empty_budget, snap_expenses = [],
                            snap_capital = empty_capital, fetchedAt = 1240500\<rparr>)],
       cacheTimestamp = Some 1240000\<rparr>,
      [js ''b/budget'', js ''b/desglose'', js ''b/capital''])"
  by (simp add: fetchAllData_def cache_fresh_def service1_eq fetch_empty_sheets promise_all_def
      bind_def parse_empty project_B_def AB_distinct)

lemma service2_eq:
  "service2 = \<lparr>cache = [(js ''A'', \<lparr>snap_budget = empty_budget, snap_expenses = [],
                            snap_capital = empty_capital, fetchedAt = 1000500\<rparr>),
                (js ''B'', \<lparr>snap_budget = empty_budget, snap_expenses = [],
                            snap_capital = empty_capital, fetchedAt = 1240500\<rparr>)],
       cacheTimestamp = Some 1240000\<rparr>"
  by (simp add: service2_def second_fetch_B)

text \<open>
  Claim C4: the code departs from it. Project A is fetched at time 1000000 and project B
  at 1240000. A call for A at 1360000, six minutes after A's last successful fetch, is
  answered from the cache with the snapshot of the first call and sends no request: the
  window is measured from the one timestamp that every fetch overwrites, here B's.
\<close>

theorem fetchAllData_stale_after_other_project:
  "fetchAllData empty_sheets Map.empty 1360000 1360500 service2 project_A
     = (fst (fetchAllData empty_sheets Map.empty 1000000 1000500 service0 project_A),
        service2, []) \<and>
   snd (snd (fetchAllData empty_sheets Map.empty 1000000 1000500 service0 project_A))
     = [js ''a/budget'', js ''a/desglose'', js ''a/capital''] \<and>
   CACHE_TTL \<le> 1360000 - 1000000"
proof -
  have "fetchAllData empty_sheets Map.empty 1360000 1360500 service2 project_A
        = (Inr \<lparr>snap_budget = empty_budget, snap_expenses = [], snap_capital = empty_capital,
                fetchedAt = 1000500\<rparr>, service2, [])"
    by (rule fetchAllData_cached[where t = 1240000])
       (simp_all add: service2_eq project_A_def CACHE_TTL_def)
  then show ?thesis
    by (simp add: first_fetch_A CACHE_TTL_def)
qed

section \<open>The aggregator\<close>

lemmas aggregate_defs = calculateExpenseSummary_def summary_step_def accumulate_def obj_get_def
  obj_set_def object_prototype_keys_def normalizeCategory_def num_truthy_def entry_def Let_def

text \<open>The example of the specification: the two spellings of the category merge.\<close>

lemma hard_costs_merge:
  "obj_get (byCategory (calculateExpenseSummary
     [entry (js ''Hard Costs'') [] 100, entry (js ''hard cost'') [] 50])) (js ''Hard Cost'')
   = Number (Fin 150)"
  by (simp add: aggregate_defs string_defs)

subsection \<open>The totals away from inherited names\<close>

text \<open>
  The rest of this section shows how far the aggregator does what is expected of it: for
  finite amounts, and for keys that are not names inherited from \<open>Object.prototype\<close>,
  every entry is the sum of the amounts counted under its key.
\<close>

lemma is_fin_Fin: "is_fin x \<Longrightarrow> \<exists>q. x = Fin q"
  by (cases x) (auto simp: is_fin_def)

lemma is_number_Fin: "is_number v \<Longrightarrow> \<exists>q. v = Number (Fin q)"
  by (cases v) (auto dest: is_fin_Fin)

lemma proto_inherited: "inherited (js ''__proto__'')"
  by (simp add: inherited_def object_prototype_keys_def)

lemma numeric_map_of: "numeric ob \<Longrightarrow> map_of ob k = Some v \<Longrightarrow> is_number v"
  by (induction ob) (auto simp: numeric_def split: if_splits)

text \<open>
  One step on a numeric object, for a key that is not inherited: the entry becomes what it
  was (0 when there was none) plus the amount.
\<close>

lemma accumulate_plain:
  assumes "numeric ob" "\<not> inherited k"
  shows "accumulate ob k (Fin a)
         = AList.update k (Number (Fin (number_of (obj_get ob k) + a))) ob"
proof -
  have k: "k \<noteq> js ''__proto__''" "k \<notin> set object_prototype_keys"
    using assms(2) proto_inherited by (auto simp: inherited_def)
  show ?thesis
  proof (cases "map_of ob k")
    case None
    then show ?thesis using k
      by (simp add: accumulate_def obj_get_def obj_set_def update_conv')
  next
    case (Some v)
    then obtain q where "v = Number (Fin q)"
      using numeric_map_of[OF assms(1)] is_number_Fin by blast
    then show ?thesis using k Some
      by (simp add: accumulate_def obj_get_def obj_set_def update_conv' num_truthy_def)
  qed
qed

lemma numeric_update: "numeric ob \<Longrightarrow> is_number v \<Longrightarrow> numeric (AList.update k v ob)"
  by (induction ob) (auto simp: numeric_def)

lemma values_sum_update:
  "values_sum (AList.update k (Number (Fin (number_of (obj_get ob k) + a))) ob)
   = values_sum ob + a"
  if "\<not> inherited k"
  using that
proof (induction ob)
  case Nil
  then show ?case by (simp add: values_sum_def obj_get_def inherited_def)
next
  case (Cons p ob)
  then show ?case by (cases p) (auto simp: values_sum_def obj_get_def inherited_def)
qed

lemma obj_get_update:
  "\<not> inherited k' \<or> k' = k \<Longrightarrow>
   number_of (obj_get (AList.update k (Number (Fin q)) ob) k')
   = (if k' = k then q else number_of (obj_get ob k'))"
  by (auto simp: obj_get_def update_conv')

lemma accumulate_all_Cons:
  "accumulate_all keyOf ob (e # es)
   = accumulate_all keyOf (accumulate ob (keyOf e) (amount e)) es"
  by (simp add: accumulate_all_def)

text \<open>
  One object of the aggregator, along any choice of key that avoids the inherited names:
  it stays numeric, its keys are those it had and those of the expenses, the sum of its
  values grows by the sum of the amounts, and each entry by the amounts under its key.
\<close>

lemma accumulate_all_plain:
  assumes "list_all (\<lambda>e. is_fin (amount e) \<and> \<not> inherited (keyOf e)) es" "numeric ob"
  shows "numeric (accumulate_all keyOf ob es) \<and>
         fst ` set (accumulate_all keyOf ob es) = fst ` set ob \<union> keyOf ` set es \<and>
         values_sum (accumulate_all keyOf ob es) = values_sum ob + amounts_sum es \<and>
         (\<forall>k. \<not> inherited k \<longrightarrow>
            number_of (obj_get (accumulate_all keyOf ob es) k)
            = number_of (obj_get ob k) + amounts_sum (filter (\<lambda>e. keyOf e = k) es))"
  using assms
proof (induction es arbitrary: ob)
  case Nil
  then show ?case by (simp add: accumulate_all_def amounts_sum_def)
next
  case (Cons e es)
  obtain a where a: "amount e = Fin a" using Cons.prems(1) is_fin_Fin by auto
  have plain: "\<not> inherited (keyOf e)" using Cons.prems(1) by simp
  let ?ob = "AList.update (keyOf e) (Number (Fin (number_of (obj_get ob (keyOf e)) + a))) ob"
  have step: "accumulate ob (keyOf e) (amount e) = ?ob"
    using accumulate_plain[OF Cons.prems(2) plain] a by simp
  have num: "numeric ?ob"
    using Cons.prems(2) by (intro numeric_update) (simp_all add: is_fin_def)
  have rest: "list_all (\<lambda>e. is_fin (amount e) \<and> \<not> inherited (keyOf e)) es"
    using Cons.prems(1) by simp
  note ih = Cons.IH[OF rest num]
  have keys: "fst ` set ?ob = insert (keyOf e) (fst ` set ob)"
    by (simp add: dom_update)
  have vs: "values_sum ?ob = values_sum ob + a"
    using plain by (rule values_sum_update)
  have look: "\<And>k. \<not> inherited k \<Longrightarrow>
      number_of (obj_get ?ob k)
      = (if k = keyOf e then number_of (obj_get ob (keyOf e)) + a else number_of (obj_get ob k))"
    by (simp add: obj_get_update)
  show ?case
    unfolding accumulate_all_Cons step
    using ih keys vs look a by (auto simp: amounts_sum_def)
qed

lemma summary_objects:
  "byCategory (foldl summary_step sm es) = accumulate_all category_key (byCategory sm) es \<and>
   bySubcategory (foldl summary_step sm es)
     = accumulate_all subcategory_key (bySubcategory sm) es"
  by (induction es arbitrary: sm)
     (simp_all add: accumulate_all_def summary_step_def category_key_def subcategory_key_def
        Let_def)

lemma summary_total:
  "list_all (\<lambda>e. is_fin (amount e)) es \<Longrightarrow> summary.total sm = Fin t \<Longrightarrow>
   summary.total (foldl summary_step sm es) = Fin (t + amounts_sum es)"
proof (induction es arbitrary: sm t)
  case Nil
  then show ?case by (simp add: amounts_sum_def)
next
  case (Cons e es)
  obtain a where a: "amount e = Fin a" using Cons.prems(1) is_fin_Fin by auto
  have "summary.total (summary_step sm e) = Fin (t + a)"
    using Cons.prems(2) a by (simp add: summary_step_def Let_def)
  then have "summary.total (foldl summary_step (summary_step sm e) es)
             = Fin ((t + a) + amounts_sum es)"
    using Cons.prems(1) by (intro Cons.IH) simp_all
  then show ?case using a by (simp add: amounts_sum_def add.assoc)
qed

lemma inherited_no_bar: "inherited k \<Longrightarrow> 124 \<notin> set k"
  by (auto simp: inherited_def object_prototype_keys_def js_def)

lemma composite_not_inherited: "\<not> inherited (c @ js ''|'' @ s)"
  using inherited_no_bar[of "c @ js ''|'' @ s"] by (auto simp: js_def)

text \<open>
  The aggregator on expenses with finite amounts: the total is the sum of the amounts;
  \<open>bySubcategory\<close> holds numbers that add up to the total; and so does \<open>byCategory\<close> when
  no normalized category is an inherited name.
\<close>

lemma summary_of_finite_amounts:
  assumes "list_all (\<lambda>e. is_fin (amount e)) es"
  shows "summary.total (calculateExpenseSummary es) = Fin (amounts_sum es)"
    and "numeric (bySubcategory (calculateExpenseSummary es))"
    and "values_sum (bySubcategory (calculateExpenseSummary es)) = amounts_sum es"
    and "list_all (\<lambda>e. \<not> inherited (category_key e)) es \<Longrightarrow>
         numeric (byCategory (calculateExpenseSummary es)) \<and>
         values_sum (byCategory (calculateExpenseSummary es)) = amounts_sum es"
proof -
  show "summary.total (calculateExpenseSummary es) = Fin (amounts_sum es)"
    using summary_total[OF assms, of "\<lparr>total = Fin 0, byCategory = [], bySubcategory = []\<rparr>" 0]
    by (simp add: calculateExpenseSummary_def)
  have sub: "list_all (\<lambda>e. is_fin (amount e) \<and> \<not> inherited (subcategory_key e)) es"
    using assms by (simp add: list_all_iff subcategory_key_def composite_not_inherited)
  from accumulate_all_plain[OF sub, of "[]"]
  show "numeric (bySubcategory (calculateExpenseSummary es))"
    and "values_sum (bySubcategory (calculateExpenseSummary es)) = amounts_sum es"
    by (simp_all add: calculateExpenseSummary_def summary_objects numeric_def values_sum_def)
  assume "list_all (\<lambda>e. \<not> inherited (category_key e)) es"
  then have cat: "list_all (\<lambda>e. is_fin (amount e) \<and> \<not> inherited (category_key e)) es"
    using assms by (simp add: list_all_iff)
  from accumulate_all_plain[OF cat, of "[]"]
  show "numeric (byCategory (calculateExpenseSummary es)) \<and>
        values_sum (byCategory (calculateExpenseSummary es)) = amounts_sum es"
    by (simp add: calculateExpenseSummary_def summary_objects numeric_def values_sum_def)
qed

text \<open>
  Each entry of \<open>byCategory\<close> is the sum of the amounts of its category, and a category
  never seen reads as \<open>undefined\<close>.
\<close>

lemma byCategory_entry:
  assumes "list_all (\<lambda>e. is_fin (amount e) \<and> \<not> inherited (category_key e)) es"
    and "\<not> inherited k"
  shows "obj_get (byCategory (calculateExpenseSummary es)) k
         = (if k \<in> category_key ` set es
            then Number (Fin (amounts_sum (filter (\<lambda>e. category_key e = k) es)))
            else Undefined)"
proof -
  let ?ob = "byCategory (calculateExpenseSummary es)"
  have ob: "?ob = accumulate_all category_key [] es"
    by (simp add: calculateExpenseSummary_def summary_objects)
  note facts = accumulate_all_plain[OF assms(1), of "[]", folded ob]
  have num: "numeric ?ob" and keys: "fst ` set ?ob = category_key ` set es"
    and tot: "number_of (obj_get ?ob k) = amounts_sum (filter (\<lambda>e. category_key e = k) es)"
    using facts assms(2) by (simp_all add: numeric_def obj_get_def inherited_def)
  show ?thesis
  proof (cases "map_of ?ob k")
    case None
    then have "k \<notin> fst ` set ?ob" by (simp add: map_of_eq_None_iff)
    then show ?thesis using None keys assms(2) by (simp add: obj_get_def inherited_def)
  next
    case (Some v)
    then have "k \<in> fst ` set ?ob" by (metis map_of_eq_None_iff option.distinct(1))
    moreover obtain q where "v = Number (Fin q)"
      using numeric_map_of[OF num Some] is_number_Fin by blast
    ultimately show ?thesis using Some keys tot by (simp add: obj_get_def)
  qed
qed

text \<open>The same expenses in another order give the same total and the same entries.\<close>

lemma amounts_sum_mset: "mset es = mset es' \<Longrightarrow> amounts_sum es = amounts_sum es'"
proof -
  assume "mset es = mset es'"
  then have "sum_mset (image_mset (\<lambda>e. fin_val (amount e)) (mset es))
             = sum_mset (image_mset (\<lambda>e. fin_val (amount e)) (mset es'))"
    by simp
  then show ?thesis
    unfolding amounts_sum_def by (simp only: sum_mset_sum_list[symmetric] mset_map)
qed

lemma order_independent:
  assumes "mset es = mset es'"
    and "list_all (\<lambda>e. is_fin (amount e) \<and> \<not> inherited (category_key e)) es"
    and "\<not> inherited k"
  shows "summary.total (calculateExpenseSummary es) = summary.total (calculateExpenseSummary es')"
    and "obj_get (byCategory (calculateExpenseSummary es)) k
         = obj_get (byCategory (calculateExpenseSummary es')) k"
proof -
  have set: "set es = set es'" using assms(1) by (rule mset_eq_setD)
  then have all': "list_all (\<lambda>e. is_fin (amount e) \<and> \<not> inherited (category_key e)) es'"
    using assms(2) by (simp add: list_all_iff)
  have fin: "list_all (\<lambda>e. is_fin (amount e)) es" "list_all (\<lambda>e. is_fin (amount e)) es'"
    using assms(2) all' by (simp_all add: list_all_iff)
  show "summary.total (calculateExpenseSummary es) = summary.total (calculateExpenseSummary es')"
    using summary_of_finite_amounts(1)[OF fin(1)] summary_of_finite_amounts(1)[OF fin(2)]
      amounts_sum_mset[OF assms(1)] by simp
  have "mset (filter (\<lambda>e. category_key e = k) es) = mset (filter (\<lambda>e. category_key e = k) es')"
    using assms(1) by simp
  then have "amounts_sum (filter (\<lambda>e. category_key e = k) es)
             = amounts_sum (filter (\<lambda>e. category_key e = k) es')"
    by (rule amounts_sum_mset)
  then show "obj_get (byCategory (calculateExpenseSummary es)) k
         = obj_get (byCategory (calculateExpenseSummary es')) k"
    using byCategory_entry[OF assms(2,3)] byCategory_entry[OF all' assms(3)] set by simp
qed

subsection \<open>Inherited names\<close>

text \<open>
  Claim C3: the code departs from it. For the single expense of category \<open>constructor\<close>
  and amount 100 the key has never been seen, but \<open>byCategory["constructor"]\<close> reads the
  inherited function \<open>Object\<close>, which is truthy: the entry is not set to 0, and \<open>+=\<close>
  stores a string, not the total 100. (For categories that are not inherited names the
  entries are the totals and do not depend on the order: \<open>byCategory_entry\<close>,
  \<open>order_independent\<close>.)
\<close>

theorem byCategory_inherited_key:
  "obj_get [] (js ''constructor'') = Builtin \<and>
   byCategory (calculateExpenseSummary [entry (js ''constructor'') [] 100])
     = [(js ''constructor'', Text)] \<and>
   summary.total (calculateExpenseSummary [entry (js ''constructor'') [] 100]) = Fin 100"
  by (simp add: aggregate_defs string_defs)

text \<open>
  Claim C10: the code departs from it. With an expense of 40 under the category
  \<open>toString\<close> and one of 60 under \<open>Hard Cost\<close> the total is 100, while the values of
  \<open>byCategory\<close> are a string and the number 60. (The values of \<open>bySubcategory\<close> always
  add up to the total, and those of \<open>byCategory\<close> do when no category is an inherited
  name: \<open>summary_of_finite_amounts\<close>.)
\<close>

theorem total_not_sum_of_categories:
  "summary.total (calculateExpenseSummary
     [entry (js ''toString'') [] 40, entry (js ''Hard Cost'') [] 60]) = Fin 100 \<and>
   byCategory (calculateExpenseSummary
     [entry (js ''toString'') [] 40, entry (js ''Hard Cost'') [] 60])
     = [(js ''toString'', Text), (js ''Hard Cost'', Number (Fin 60))]"
  by (simp add: aggregate_defs string_defs)

end
